theory Spec2Isabelle
  imports Main "HOL-Library.Multiset"
begin

section \<open>JavaScript values and objects\<close>

text \<open>
  The sources are JavaScript classes. An object used as a dictionary keeps its string keys
  in insertion order, and assigning to a key that is already present replaces the value
  where the key stands. Such an object is an association list with distinct keys:
  \<open>lookup\<close> is the property read \<open>o[k]\<close> (\<open>None\<close> for \<open>undefined\<close>),
  \<open>assign\<close> is \<open>o[k] = v\<close>, \<open>keys\<close> is \<open>Object.keys(o)\<close> and
  \<open>spread a b\<close> is \<open>{...a, ...b}\<close>.
\<close>

type_synonym 'v dict = "(string \<times> 'v) list"

definition lookup :: "'v dict \<Rightarrow> string \<Rightarrow> 'v option" where
  "lookup d k = map_of d k"

fun assign :: "'v dict \<Rightarrow> string \<Rightarrow> 'v \<Rightarrow> 'v dict" where
  "assign [] k v = [(k, v)]"
| "assign ((k', v') # kvs) k v =
     (if k' = k then (k, v) # kvs else (k', v') # assign kvs k v)"

definition keys :: "'v dict \<Rightarrow> string list" where
  "keys d = map fst d"

fun spread :: "'v dict \<Rightarrow> 'v dict \<Rightarrow> 'v dict" where
  "spread a [] = a"
| "spread a ((k, v) # kvs) = spread (assign a k v) kvs"

text \<open>
  This is how an object behaves for plain keys. Two kinds of key behave otherwise and are
  outside the model: a property name of \<open>Object.prototype\<close> (a read finds the inherited
  member when the object has no own one, and an assignment to \<open>__proto__\<close> creates no
  key), and a canonical numeric string (\<open>Object.keys\<close> lists such keys first, in
  numeric order). The statements below about arbitrary names ask for plain keys.
\<close>

definition objectPrototypeKeys :: "string list" where
  "objectPrototypeKeys =
     [''constructor'', ''__defineGetter__'', ''__defineSetter__'', ''hasOwnProperty'',
      ''__lookupGetter__'', ''__lookupSetter__'', ''isPrototypeOf'', ''propertyIsEnumerable'',
      ''toString'', ''valueOf'', ''__proto__'', ''toLocaleString'']"

definition isIndexKey :: "string \<Rightarrow> bool" where
  "isIndexKey k \<longleftrightarrow>
     k \<noteq> [] \<and> list_all (\<lambda>c. c \<in> set ''0123456789'') k \<and> (k = ''0'' \<or> hd k \<noteq> CHR ''0'')"

definition plainKey :: "string \<Rightarrow> bool" where
  "plainKey k \<longleftrightarrow> k \<notin> set objectPrototypeKeys \<and> \<not> isIndexKey k"

text \<open>Plain data (object literals, arrays, numbers, strings, \<open>null\<close>) carried as payload;
  \<open>JNull\<close> stands for \<open>null\<close> and for \<open>undefined\<close>.\<close>

datatype jsval =
    JNull
  | JBool bool
  | JNum int
  | JStr string
  | JArr "jsval list"
  | JObj "(string \<times> jsval) list"

text \<open>JavaScript truthiness, and the truthiness of a property read that may be \<open>undefined\<close>.\<close>

fun truthy :: "jsval \<Rightarrow> bool" where
  "truthy JNull = False"
| "truthy (JBool b) = b"
| "truthy (JNum n) = (n \<noteq> 0)"
| "truthy (JStr s) = (s \<noteq> [])"
| "truthy (JArr xs) = True"
| "truthy (JObj kvs) = True"

definition truthy_opt :: "jsval option \<Rightarrow> bool" where
  "truthy_opt v = (case v of None \<Rightarrow> False | Some x \<Rightarrow> truthy x)"

text \<open>\<open>o.k\<close> for a value \<open>o\<close> that is not \<open>null\<close>: only an object literal has own keys.\<close>

fun prop_of :: "jsval \<Rightarrow> string \<Rightarrow> jsval option" where
  "prop_of (JObj kvs) k = map_of kvs k"
| "prop_of v k = None"

text \<open>\<open>Number.prototype.toString(16)\<close> and the decimal rendering of template literals,
  for natural numbers.\<close>

definition hexDigit :: "nat \<Rightarrow> char" where
  "hexDigit d = (''0123456789abcdef'') ! d"

fun toString16 :: "nat \<Rightarrow> string" where
  "toString16 n = (if n < 16 then [hexDigit n] else toString16 (n div 16) @ [hexDigit (n mod 16)])"

fun toString10 :: "nat \<Rightarrow> string" where
  "toString10 n = (if n < 10 then [hexDigit n] else toString10 (n div 10) @ [hexDigit (n mod 10)])"

text \<open>
  Every \<open>throw new Error(...)\<close> of the modelled functions is one constructor, carrying the
  values its message interpolates:
  \<^item> \<open>TemplateNotFound name\<close>: "Template no encontrado para modulo: name" (\<open>loadModule\<close>);
  \<^item> \<open>DependencyNotSatisfied dep name\<close>: "Dependencia no satisfecha: dep para name"
    (\<open>loadModule\<close>);
  \<^item> \<open>EssentialModuleLoadFailed name\<close>: "No se pudo cargar modulo esencial: name"
    (\<open>loadEssentialModules\<close>);
  \<^item> \<open>DependencyNotFound dep name\<close>: "Dependencia no encontrada: dep para name"
    (\<open>resolveSymbols\<close>);
  \<^item> \<open>StageNotFound stageName\<close>: "Etapa de boot no encontrada: stageName" (\<open>loadStage\<close>);
  \<^item> \<open>StageFailed stageName err\<close>: "Fallo en etapa stageName: err" (\<open>BootLoader.start\<close>),
    where \<open>err\<close> is \<open>result.error\<close> (\<open>None\<close> when it is \<open>undefined\<close>);
  \<^item> \<open>ServiceNotFound serviceName\<close>: "Servicio no encontrado: serviceName"
    (\<open>startService\<close>);
  \<^item> \<open>ServiceNotAvailable serviceName runlevel\<close>: "Servicio serviceName no disponible en
    runlevel runlevel" (\<open>startService\<close>);
  \<^item> \<open>TypeError what\<close>: the runtime's error for a property read on \<open>undefined\<close>;
  \<^item> \<open>Thrown msg\<close>: an error raised by an external action (a stage's \<open>execute\<close>, a
    service's \<open>start\<close>) with message \<open>msg\<close>.
  The code defines no error classes: every error is a plain \<open>Error\<close> told apart by its
  message only.
\<close>

datatype error =
    TemplateNotFound string
  | DependencyNotSatisfied string string
  | EssentialModuleLoadFailed string
  | DependencyNotFound string string
  | StageNotFound string
  | StageFailed string "string option"
  | ServiceNotFound string
  | ServiceNotAvailable string nat
  | TypeError string
  | Thrown string

section \<open>Stage 2: the kernel loader\<close>

text \<open>An entry of the \<open>essentialModules\<close> array of \<open>loadEssentialModules\<close>.\<close>

record moduleDef =
  md_name :: string
  md_path :: string
  md_priority :: int
  md_dependencies :: "string list"
  md_exports :: "string list"

text \<open>A definition all of whose names are plain keys.\<close>

definition plainDef :: "moduleDef \<Rightarrow> bool" where
  "plainDef m \<longleftrightarrow>
     plainKey (md_name m) \<and> list_all plainKey (md_dependencies m) \<and>
     list_all plainKey (md_exports m)"

text \<open>
  An entry of \<open>moduleTemplates\<close> in \<open>loadModule\<close>. \<open>mt_initialize\<close> is what the
  template's \<open>initialize()\<close> returns (\<open>None\<close> for a template without that function);
  \<open>mt_api\<close> lists the keys of its \<open>api\<close> object, the functions themselves being opaque.
\<close>

record moduleTemplate =
  mt_name :: string
  mt_version :: string
  mt_type :: string
  mt_initialize :: "jsval option"
  mt_api :: "string list"

text \<open>The module instance \<open>loadModule\<close> builds: the template's fields, then
  \<open>dependencies\<close>, \<open>initialized\<close> and \<open>state\<close>.\<close>

record moduleInstance =
  mi_name :: string
  mi_version :: string
  mi_type :: string
  mi_initialize :: "jsval option"
  mi_api :: "string list"
  mi_dependencies :: "string list"
  mi_initialized :: bool
  mi_state :: "jsval option"

text \<open>An entry of \<open>this.symbols\<close>; \<open>sym_type\<close> is set by \<open>resolveSymbols\<close> only.\<close>

record symbol =
  sym_module :: string
  sym_address :: string
  sym_type :: "string option"

text \<open>The fields of \<open>Stage2KernelLoader\<close> the modelled methods read or write.\<close>

record Stage2KernelLoader =
  kernelBase :: nat
  modules :: "moduleInstance dict"
  symbols :: "symbol dict"

definition newStage2KernelLoader :: Stage2KernelLoader where
  "newStage2KernelLoader = \<lparr>kernelBase = 0x100000, modules = [], symbols = []\<rparr>"

definition moduleTemplates :: "moduleTemplate dict" where
  "moduleTemplates =
    [(''scheduler'',
        \<lparr>mt_name = ''scheduler'', mt_version = ''1.0.0'', mt_type = ''kernel'',
         mt_initialize = Some (JObj [(''status'', JStr ''initialized''), (''queue'', JArr []),
                                     (''currentProcess'', JNull)]),
         mt_api = [''schedule'', ''createProcess'', ''terminateProcess'', ''yield'', ''sleep'']\<rparr>),
     (''memory-manager'',
        \<lparr>mt_name = ''memory-manager'', mt_version = ''1.0.0'', mt_type = ''kernel'',
         mt_initialize = Some (JObj [(''status'', JStr ''initialized''), (''allocated'', JNum 0),
                                     (''free'', JNum (1024 * 1024 * 1024)), (''regions'', JArr [])]),
         mt_api = [''kmalloc'', ''kfree'', ''mapMemory'', ''unmapMemory'', ''getPhysicalAddress'']\<rparr>),
     (''process-manager'',
        \<lparr>mt_name = ''process-manager'', mt_version = ''1.0.0'', mt_type = ''kernel'',
         mt_initialize = Some (JObj [(''status'', JStr ''initialized''), (''processes'', JObj []),
                                     (''nextPid'', JNum 1)]),
         mt_api = [''createProcess'', ''terminateProcess'', ''getProcessById'', ''getAllProcesses'',
                   ''sendSignal'']\<rparr>),
     (''ipc-system'',
        \<lparr>mt_name = ''ipc-system'', mt_version = ''1.0.0'', mt_type = ''kernel'',
         mt_initialize = Some (JObj [(''status'', JStr ''initialized''), (''queues'', JObj []),
                                     (''sharedMemories'', JObj [])]),
         mt_api = [''createMessageQueue'', ''sendMessage'', ''receiveMessage'',
                   ''createSharedMemory'', ''destroySharedMemory'']\<rparr>),
     (''syscalls'',
        \<lparr>mt_name = ''syscalls'', mt_version = ''1.0.0'', mt_type = ''kernel'',
         mt_initialize = Some (JObj [(''status'', JStr ''initialized''), (''table'', JObj []),
                                     (''count'', JNum 0)]),
         mt_api = []\<rparr>)]"

text \<open>
  \<open>loadModule(moduleDef)\<close>: the template is looked up first, then every dependency must
  be a (truthy) entry of \<open>this.modules\<close>; module instances are objects, so an entry is
  truthy exactly when it is present. The template's \<open>initialize\<close>, when there is one, is
  called and its result kept as \<open>state\<close>. The method assigns to no field of \<open>this\<close>; the
  loader is returned beside the result to make that explicit.
\<close>

definition loadModule ::
  "moduleDef \<Rightarrow> Stage2KernelLoader \<Rightarrow> (error + moduleInstance) \<times> Stage2KernelLoader" where
  "loadModule moduleDef this =
    (case lookup moduleTemplates (md_name moduleDef) of
       None \<Rightarrow> (Inl (TemplateNotFound (md_name moduleDef)), this)
     | Some template \<Rightarrow>
        (case find (\<lambda>dep. lookup (modules this) dep = None) (md_dependencies moduleDef) of
           Some dep \<Rightarrow> (Inl (DependencyNotSatisfied dep (md_name moduleDef)), this)
         | None \<Rightarrow>
            (Inr \<lparr>mi_name = mt_name template, mi_version = mt_version template,
                  mi_type = mt_type template, mi_initialize = mt_initialize template,
                  mi_api = mt_api template,
                  mi_dependencies = md_dependencies moduleDef,
                  mi_initialized = (mt_initialize template \<noteq> None),
                  mi_state = mt_initialize template\<rparr>, this)))"

text \<open>The inner loop of \<open>loadEssentialModules\<close> that registers the exported symbols of
  one module: a plain assignment \<open>this.symbols[exportName] = {module, address}\<close>.\<close>

fun registerExports :: "string \<Rightarrow> string list \<Rightarrow> Stage2KernelLoader \<Rightarrow> Stage2KernelLoader" where
  "registerExports owner [] this = this"
| "registerExports owner (exportName # rest) this =
     registerExports owner rest
       (this\<lparr>symbols := assign (symbols this) exportName
           \<lparr>sym_module = owner,
            sym_address = ''kernel+0x'' @
               toString16 (kernelBase this + length (keys (symbols this)) * 8),
            sym_type = None\<rparr>\<rparr>)"

text \<open>
  The loading loop of \<open>loadEssentialModules\<close>. Only \<open>loadModule\<close> can throw inside the
  \<open>try\<close>; the \<open>catch\<close> rethrows as \<open>EssentialModuleLoadFailed\<close>, which ends the loop
  with the modules loaded so far still in \<open>this.modules\<close>.
\<close>

fun loadEach :: "moduleDef list \<Rightarrow> Stage2KernelLoader \<Rightarrow> error option \<times> Stage2KernelLoader" where
  "loadEach [] this = (None, this)"
| "loadEach (moduleDef # rest) this =
     (case fst (loadModule moduleDef this) of
        Inl e \<Rightarrow> (Some (EssentialModuleLoadFailed (md_name moduleDef)), this)
      | Inr module \<Rightarrow>
          loadEach rest
            (registerExports (md_name moduleDef) (md_exports moduleDef)
               (this\<lparr>modules := assign (modules this) (md_name moduleDef) module\<rparr>)))"

text \<open>
  \<open>loadEssentialModules\<close> over a given array of definitions: \<open>Array.prototype.sort\<close> with
  the comparator \<open>a.priority - b.priority\<close> is a stable sort by priority, then the loop.
  On success the method returns \<open>this.modules\<close>, a field of the loader returned here.
\<close>

definition loadEssentialModulesWith ::
  "moduleDef list \<Rightarrow> Stage2KernelLoader \<Rightarrow> error option \<times> Stage2KernelLoader" where
  "loadEssentialModulesWith defs this = loadEach (sort_key md_priority defs) this"

text \<open>The array the method is written with.\<close>

definition essentialModules :: "moduleDef list" where
  "essentialModules =
    [\<lparr>md_name = ''scheduler'', md_path = ''kernel/core/scheduler.js'', md_priority = 1,
      md_dependencies = [],
      md_exports = [''schedule'', ''createProcess'', ''terminateProcess'', ''yield'', ''sleep'']\<rparr>,
     \<lparr>md_name = ''memory-manager'', md_path = ''kernel/core/memory-manager.js'', md_priority = 1,
      md_dependencies = [],
      md_exports = [''kmalloc'', ''kfree'', ''mapMemory'', ''unmapMemory'', ''getPhysicalAddress'']\<rparr>,
     \<lparr>md_name = ''process-manager'', md_path = ''kernel/core/process-manager.js'',
      md_priority = 1,
      md_dependencies = [''scheduler'', ''memory-manager''],
      md_exports = [''createProcess'', ''terminateProcess'', ''getProcessById'',
                    ''getAllProcesses'', ''sendSignal'']\<rparr>,
     \<lparr>md_name = ''ipc-system'', md_path = ''kernel/core/ipc-system.js'', md_priority = 2,
      md_dependencies = [''process-manager''],
      md_exports = [''createMessageQueue'', ''sendMessage'', ''receiveMessage'',
                    ''createSharedMemory'', ''destroySharedMemory'']\<rparr>,
     \<lparr>md_name = ''syscalls'', md_path = ''kernel/core/syscalls.js'', md_priority = 0,
      md_dependencies = [''process-manager'', ''memory-manager''],
      md_exports = []\<rparr>]"

definition loadEssentialModules ::
  "Stage2KernelLoader \<Rightarrow> error option \<times> Stage2KernelLoader" where
  "loadEssentialModules this = loadEssentialModulesWith essentialModules this"


text \<open>
  \<open>resolveSymbols()\<close>. First every dependency of every loaded module must itself be
  loaded. Then \<open>globalSymbols\<close> gets one entry per key of each module's \<open>api\<close>, again by
  plain assignment, and is spread over \<open>this.symbols\<close>. The address of such an entry is
  built from \<open>Math.random()\<close>: \<open>rnd n\<close> is the address string of the \<open>n\<close>-th draw.
\<close>

fun checkResolved :: "moduleInstance dict \<Rightarrow> moduleInstance dict \<Rightarrow> error option" where
  "checkResolved loaded [] = None"
| "checkResolved loaded ((moduleName, module) # rest) =
     (case find (\<lambda>depName. lookup loaded depName = None) (mi_dependencies module) of
        Some depName \<Rightarrow> Some (DependencyNotFound depName moduleName)
      | None \<Rightarrow> checkResolved loaded rest)"

fun apiSymbols ::
  "(nat \<Rightarrow> string) \<Rightarrow> string \<Rightarrow> string list \<Rightarrow> symbol dict \<times> nat \<Rightarrow> symbol dict \<times> nat" where
  "apiSymbols rnd moduleName [] acc = acc"
| "apiSymbols rnd moduleName (funcName # rest) (globalSymbols, n) =
     apiSymbols rnd moduleName rest
       (assign globalSymbols funcName
          \<lparr>sym_module = moduleName, sym_address = rnd n, sym_type = Some ''function''\<rparr>,
        n + 1)"

fun globalSymbolsOf ::
  "(nat \<Rightarrow> string) \<Rightarrow> moduleInstance dict \<Rightarrow> symbol dict \<times> nat \<Rightarrow> symbol dict \<times> nat" where
  "globalSymbolsOf rnd [] acc = acc"
| "globalSymbolsOf rnd ((moduleName, module) # rest) acc =
     globalSymbolsOf rnd rest (apiSymbols rnd moduleName (mi_api module) acc)"

definition resolveSymbols ::
  "(nat \<Rightarrow> string) \<Rightarrow> Stage2KernelLoader \<Rightarrow> error option \<times> Stage2KernelLoader" where
  "resolveSymbols rnd this =
    (case checkResolved (modules this) (modules this) of
       Some e \<Rightarrow> (Some e, this)
     | None \<Rightarrow>
        (None, this\<lparr>symbols :=
                 spread (symbols this) (fst (globalSymbolsOf rnd (modules this) ([], 0)))\<rparr>))"

text \<open>The notions of the specification for a collection of module definitions: the
  dependency edges \<open>(dep, module)\<close>, and a valid acyclic collection (distinct names, every
  dependency names a module of the collection, no cycle of dependency edges).\<close>

definition dependsOn :: "moduleDef list \<Rightarrow> (string \<times> string) set" where
  "dependsOn defs = {(dep, md_name m) | dep m. m \<in> set defs \<and> dep \<in> set (md_dependencies m)}"

definition validAcyclic :: "moduleDef list \<Rightarrow> bool" where
  "validAcyclic defs \<longleftrightarrow>
     distinct (map md_name defs) \<and>
     (\<forall>m\<in>set defs. set (md_dependencies m) \<subseteq> set (map md_name defs)) \<and>
     acyclic (dependsOn defs)"

text \<open>The index of a name in a load order (the length of the order when it is absent).\<close>

primrec index_of :: "string list \<Rightarrow> string \<Rightarrow> nat" where
  "index_of [] x = 0"
| "index_of (y # ys) x = (if y = x then 0 else Suc (index_of ys x))"

section \<open>The environment of the asynchronous methods\<close>

text \<open>
  \<open>clock\<close> is what \<open>Date.now()\<close> returns, in milliseconds. \<open>collab\<close> is the state of
  the external collaborators (stage actions, service start actions), which only they read
  and write. \<open>delay ms\<close> is \<open>await this.delay(ms)\<close>, an ideal timer: the clock advances
  by \<open>ms\<close>. Console output is narration and is not modelled, but for the
  \<open>console.error\<close> calls of \<open>enterRunlevel\<close>, which are kept in a list of their own.
\<close>

record 'x world =
  clock :: nat
  collab :: 'x

definition delay :: "nat \<Rightarrow> 'x world \<Rightarrow> 'x world" where
  "delay ms w = w\<lparr>clock := clock w + ms\<rparr>"

text \<open>An external asynchronous action: it may change the environment, and it either
  throws or returns a value.\<close>

type_synonym ('x, 'a) action = "'x world \<Rightarrow> (error + 'a) \<times> 'x world"

section \<open>The boot loader\<close>

text \<open>What \<open>BootLoader.start\<close> reads of the object a stage's \<open>execute()\<close> returns.\<close>

record stageResult =
  sr_success :: bool
  sr_kernelModules :: "jsval dict option"
  sr_services :: "jsval dict option"
  sr_error :: "string option"

type_synonym 'x stage = "('x, stageResult) action"

text \<open>\<open>this.bootStatus\<close>; \<open>errors\<close> holds the errors whose messages are pushed.\<close>

record BootStatus =
  initialized :: bool
  errors :: "error list"
  warnings :: "string list"
  startTime :: "nat option"
  endTime :: "nat option"

record BootLoader =
  stages :: "string list"
  currentStage :: nat
  bootStatus :: BootStatus
  kernelModules :: "jsval dict"
  systemServices :: "jsval dict"

text \<open>The constructor.\<close>

definition newBootLoader :: BootLoader where
  "newBootLoader =
     \<lparr>stages = [''stage1-bios'', ''stage2-kernel-loader'', ''stage3-init''],
      currentStage = 0,
      bootStatus = \<lparr>initialized = False, errors = [], warnings = [],
                    startTime = None, endTime = None\<rparr>,
      kernelModules = [],
      systemServices = []\<rparr>"

text \<open>
  What \<open>start\<close> returns: on success \<open>bootTime\<close>, the keys of \<open>kernelModules\<close> and of
  \<open>systemServices\<close>; on failure the error, \<open>stage\<close> (\<open>this.currentStage\<close>) and
  \<open>stageName\<close> (\<open>this.stages[this.currentStage - 1]\<close>, \<open>None\<close> when \<open>undefined\<close>).
  \<open>bootTime\<close> is kept in milliseconds: the source divides it by 1000 in floating point.
\<close>

datatype bootResult =
    BootSuccess int "string list" "string list"
  | BootFailure error nat "string option"

text \<open>\<open>loadStage(stageName)\<close>: the three simulated stages of the source, looked up by
  (plain) name. Each waits and returns a constant result.\<close>

definition loadStage :: "string \<Rightarrow> error + 'x stage" where
  "loadStage stageName =
    (if stageName = ''stage1-bios'' then
       Inr (\<lambda>w. (Inr \<lparr>sr_success = True, sr_kernelModules = None, sr_services = None,
                        sr_error = None\<rparr>, delay 100 w))
     else if stageName = ''stage2-kernel-loader'' then
       Inr (\<lambda>w. (Inr \<lparr>sr_success = True,
                        sr_kernelModules = Some
                          [(''scheduler'', JObj [(''status'', JStr ''loaded'')]),
                           (''memory-manager'', JObj [(''status'', JStr ''loaded'')]),
                           (''process-manager'', JObj [(''status'', JStr ''loaded'')])],
                        sr_services = None, sr_error = None\<rparr>, delay 150 w))
     else if stageName = ''stage3-init'' then
       Inr (\<lambda>w. (Inr \<lparr>sr_success = True, sr_kernelModules = None,
                        sr_services = Some
                          [(''auth'', JObj [(''status'', JStr ''running'')]),
                           (''vfs'', JObj [(''status'', JStr ''running'')]),
                           (''network'', JObj [(''status'', JStr ''running'')])],
                        sr_error = None\<rparr>, delay 200 w))
     else Inl (StageNotFound stageName))"

text \<open>\<open>a || {}\<close> for an optional object.\<close>

definition orEmpty :: "'v dict option \<Rightarrow> 'v dict" where
  "orEmpty d = (case d of None \<Rightarrow> [] | Some x \<Rightarrow> x)"

text \<open>
  The \<open>for\<close> loop of \<open>start\<close>, from index \<open>i\<close>, over the stage names still to run.
  \<open>ld\<close> is the \<open>loadStage\<close> in use. The result is the error thrown inside the loop, if
  any: by \<open>loadStage\<close>, by the stage's \<open>execute\<close>, or for a result whose \<open>success\<close> is
  false. A throw leaves the loop at once.
\<close>

fun runStages ::
  "(string \<Rightarrow> error + 'x stage) \<Rightarrow> string list \<Rightarrow> nat \<Rightarrow> BootLoader \<Rightarrow> 'x world
     \<Rightarrow> error option \<times> BootLoader \<times> 'x world" where
  "runStages ld [] i this w = (None, this, w)"
| "runStages ld (stageName # rest) i this w =
     (let this1 = this\<lparr>currentStage := i + 1\<rparr> in
      case ld stageName of
        Inl e \<Rightarrow> (Some e, this1, w)
      | Inr stage \<Rightarrow>
         (case stage w of
            (Inl e, w1) \<Rightarrow> (Some e, this1, w1)
          | (Inr result, w1) \<Rightarrow>
              if \<not> sr_success result
              then (Some (StageFailed stageName (sr_error result)), this1, w1)
              else runStages ld rest (i + 1)
                     (this1\<lparr>kernelModules :=
                               spread (kernelModules this1) (orEmpty (sr_kernelModules result)),
                            systemServices :=
                               spread (systemServices this1) (orEmpty (sr_services result))\<rparr>)
                     w1))"

text \<open>\<open>mountVirtualFilesystem\<close> and \<open>initializeSystemServices\<close>: delays only (one of 100 ms,
  then 50 ms for each of the four essential services); neither throws nor writes a field.\<close>

definition mountVirtualFilesystem :: "'x world \<Rightarrow> 'x world" where
  "mountVirtualFilesystem w = delay 100 w"

definition initializeSystemServices :: "'x world \<Rightarrow> 'x world" where
  "initializeSystemServices w = delay 50 (delay 50 (delay 50 (delay 50 w)))"

definition nth_opt :: "'a list \<Rightarrow> nat \<Rightarrow> 'a option" where
  "nth_opt xs i = (if i < length xs then Some (xs ! i) else None)"

text \<open>
  \<open>start()\<close> with the stage loader \<open>ld\<close>. Its first assignment is
  \<open>this.bootStatus.startTime = Date.now()\<close> (\<open>markStartTime\<close>); the stage loop begins
  from the loader so marked. The \<open>try\<close> block sets \<open>initialized\<close> and
  \<open>endTime\<close> after the loop and the two initialisations; the \<open>catch\<close> block pushes the
  error and returns the failure, and assigns nothing else.
\<close>

definition markStartTime :: "BootLoader \<Rightarrow> 'x world \<Rightarrow> BootLoader" where
  "markStartTime this w = this\<lparr>bootStatus := (bootStatus this)\<lparr>startTime := Some (clock w)\<rparr>\<rparr>"

definition startWith ::
  "(string \<Rightarrow> error + 'x stage) \<Rightarrow> BootLoader \<Rightarrow> 'x world
     \<Rightarrow> bootResult \<times> BootLoader \<times> 'x world" where
  "startWith ld this w =
    (let this0 = markStartTime this w in
     case runStages ld (stages this0) 0 this0 w of
       (Some e, this1, w1) \<Rightarrow>
         (BootFailure e (currentStage this1)
            (if currentStage this1 = 0 then None
             else nth_opt (stages this1) (currentStage this1 - 1)),
          this1\<lparr>bootStatus := (bootStatus this1)\<lparr>errors := errors (bootStatus this1) @ [e]\<rparr>\<rparr>,
          w1)
     | (None, this1, w1) \<Rightarrow>
         (let w2 = initializeSystemServices (mountVirtualFilesystem w1);
              this2 = this1\<lparr>bootStatus :=
                        (bootStatus this1)\<lparr>initialized := True, endTime := Some (clock w2)\<rparr>\<rparr>
          in (BootSuccess
                (int (clock w2) -
                   (case startTime (bootStatus this2) of None \<Rightarrow> 0 | Some t \<Rightarrow> int t))
                (keys (kernelModules this2)) (keys (systemServices this2)),
              this2, w2)))"

definition start :: "BootLoader \<Rightarrow> 'x world \<Rightarrow> bootResult \<times> BootLoader \<times> 'x world" where
  "start this w = startWith loadStage this w"

text \<open>\<open>getBootStatus()\<close>: the fields of \<open>bootStatus\<close>, then the stage counters and the
  numbers of keys of \<open>kernelModules\<close> and \<open>systemServices\<close>.\<close>

record statusReport =
  rp_initialized :: bool
  rp_errors :: "error list"
  rp_warnings :: "string list"
  rp_startTime :: "nat option"
  rp_endTime :: "nat option"
  rp_currentStage :: nat
  rp_totalStages :: nat
  rp_kernelModules :: nat
  rp_systemServices :: nat

definition getBootStatus :: "BootLoader \<Rightarrow> statusReport" where
  "getBootStatus this =
     \<lparr>rp_initialized = initialized (bootStatus this),
      rp_errors = errors (bootStatus this),
      rp_warnings = warnings (bootStatus this),
      rp_startTime = startTime (bootStatus this),
      rp_endTime = endTime (bootStatus this),
      rp_currentStage = currentStage this,
      rp_totalStages = length (stages this),
      rp_kernelModules = length (keys (kernelModules this)),
      rp_systemServices = length (keys (systemServices this))\<rparr>"

text \<open>\<open>reboot()\<close>: the four assignments under "Limpiar estado" (\<open>rebootReset\<close>), a delay
  of 500 ms, then \<open>start()\<close>.\<close>

definition rebootReset :: "BootLoader \<Rightarrow> BootLoader" where
  "rebootReset this =
     this\<lparr>currentStage := 0,
          bootStatus := (bootStatus this)\<lparr>initialized := False\<rparr>,
          kernelModules := [],
          systemServices := []\<rparr>"

definition rebootWith ::
  "(string \<Rightarrow> error + 'x stage) \<Rightarrow> BootLoader \<Rightarrow> 'x world
     \<Rightarrow> bootResult \<times> BootLoader \<times> 'x world" where
  "rebootWith ld this w = startWith ld (rebootReset this) (delay 500 w)"

definition reboot :: "BootLoader \<Rightarrow> 'x world \<Rightarrow> bootResult \<times> BootLoader \<times> 'x world" where
  "reboot this w = rebootWith loadStage this w"


section \<open>Stage 3: the init system\<close>

text \<open>
  An entry of \<open>serviceTemplates\<close> in \<open>startService\<close>. \<open>st_start\<close> is the template's
  \<open>start\<close> function (\<open>None\<close> for a template without one), an external action returning
  the process object. The \<open>stop\<close> function of a template is never called by the modelled
  methods and is left out. A character beyond ASCII is the \<open>char\<close> of its code unit.
\<close>

record 'x serviceTemplate =
  st_name :: string
  st_description :: string
  st_type :: string
  st_runlevels :: "nat list"
  st_start :: "('x, jsval) action option"

text \<open>The \<open>serviceInfo\<close> object \<open>startService\<close> returns: the template's data fields,
  \<open>startedAt\<close>, \<open>runlevel\<close>, and, when the template has a \<open>start\<close>, \<open>process\<close> and
  \<open>status\<close>.\<close>

record serviceInfo =
  si_name :: string
  si_description :: string
  si_type :: string
  si_runlevels :: "nat list"
  si_startedAt :: nat
  si_runlevel :: nat
  si_process :: "jsval option"
  si_status :: "string option"

text \<open>An entry of \<open>this.daemons\<close>; \<open>dm_pid\<close> is \<open>startResult.pid\<close>.\<close>

record daemonEntry =
  dm_name :: string
  dm_pid :: "jsval option"
  dm_since :: nat

text \<open>
  The fields of \<open>Stage3Init\<close> the modelled methods use. \<open>serviceTable\<close> is \<open>None\<close>
  until \<open>initInitSystem\<close> assigns it: the constructor does not. \<open>initStartTime\<close> is the
  field \<open>this.startTime\<close> that \<open>checkSystemStatus\<close> reads (named apart from the boot
  loader's \<open>startTime\<close>); no method of the class assigns it, so it is \<open>None\<close>
  (\<open>undefined\<close>) unless it is set from outside.
\<close>

record Stage3Init =
  runlevel :: nat
  services :: "serviceInfo dict"
  daemons :: "daemonEntry list"
  userSessions :: "jsval list"
  serviceTable :: "(nat \<times> string list) list option"
  initStartTime :: "nat option"

definition newStage3Init :: Stage3Init where
  "newStage3Init =
     \<lparr>runlevel = 0, services = [], daemons = [], userSessions = [], serviceTable = None,
      initStartTime = None\<rparr>"

text \<open>The table \<open>initInitSystem\<close> assigns to \<open>this.serviceTable\<close>.\<close>

definition initialServiceTable :: "(nat \<times> string list) list" where
  "initialServiceTable =
     [(1, [''emergency-shell'', ''basic-network'', ''minimal-fs'']),
      (2, [''cron'', ''syslog'', ''dbus'', ''network-manager'']),
      (3, [''ssh'', ''web-server'', ''database'', ''print-spooler'']),
      (5, [''display-manager'', ''desktop-environment'', ''window-manager''])]"

definition serviceTemplates :: "'x serviceTemplate dict" where
  "serviceTemplates =
    [
     (''emergency-shell'',
        \<lparr>st_name = ''emergency-shell'', st_description = ''Shell de emergencia'',
         st_type = ''daemon'', st_runlevels = [1],
         st_start = Some (\<lambda>w. (Inr (JObj [(''pid'', JNum 1001), (''status'', JStr ''running''), (''port'', JNull)]),
                                  delay 30 w))\<rparr>),
     (''basic-network'',
        \<lparr>st_name = ''basic-network'', st_description = ''Configuraci'' @ [CHR 0xF3] @ ''n b'' @ [CHR 0xE1] @ ''sica de red'',
         st_type = ''service'', st_runlevels = [1, 2, 3, 5],
         st_start = Some (\<lambda>w. (Inr (JObj [(''pid'', JNum 1002), (''status'', JStr ''running''),
                                   (''interfaces'', JArr [JStr ''lo'', JStr ''eth0'']),
                                   (''addresses'', JArr [JStr ''127.0.0.1''])]),
                                  delay 40 w))\<rparr>),
     (''minimal-fs'',
        \<lparr>st_name = ''minimal-fs'', st_description = ''Filesystem m'' @ [CHR 0xED] @ ''nimo'',
         st_type = ''service'', st_runlevels = [1, 2, 3, 5],
         st_start = Some (\<lambda>w. (Inr (JObj [(''pid'', JNum 1003), (''status'', JStr ''running''),
                                   (''mounts'', JArr [JStr ''/'', JStr ''/proc'', JStr ''/sys''])]),
                                  delay 35 w))\<rparr>),
     (''cron'',
        \<lparr>st_name = ''cron'', st_description = ''Programador de tareas'',
         st_type = ''daemon'', st_runlevels = [2, 3, 5],
         st_start = Some (\<lambda>w. (Inr (JObj [(''pid'', JNum 1004), (''status'', JStr ''running''), (''jobs'', JNum 0)]),
                                  delay 25 w))\<rparr>),
     (''syslog'',
        \<lparr>st_name = ''syslog'', st_description = ''Sistema de logging'',
         st_type = ''daemon'', st_runlevels = [2, 3, 5],
         st_start = Some (\<lambda>w. (Inr (JObj [(''pid'', JNum 1005), (''status'', JStr ''running''),
                                   (''facility'', JStr ''local0'')]),
                                  delay 30 w))\<rparr>),
     (''dbus'',
        \<lparr>st_name = ''dbus'', st_description = ''Bus de mensajes del sistema'',
         st_type = ''daemon'', st_runlevels = [2, 3, 5],
         st_start = Some (\<lambda>w. (Inr (JObj [(''pid'', JNum 1006), (''status'', JStr ''running''), (''sockets'', JNum 2)]),
                                  delay 35 w))\<rparr>),
     (''network-manager'',
        \<lparr>st_name = ''network-manager'', st_description = ''Gestor de red'',
         st_type = ''daemon'', st_runlevels = [2, 3, 5],
         st_start = Some (\<lambda>w. (Inr (JObj [(''pid'', JNum 1007), (''status'', JStr ''running''),
                                   (''connections'', JNum 1)]),
                                  delay 50 w))\<rparr>),
     (''display-manager'',
        \<lparr>st_name = ''display-manager'', st_description = ''Gestor de display gr'' @ [CHR 0xE1] @ ''fico'',
         st_type = ''daemon'', st_runlevels = [5],
         st_start = Some (\<lambda>w. (Inr (JObj [(''pid'', JNum 1008), (''status'', JStr ''running''),
                                   (''display'', JStr '':0'')]),
                                  delay 60 w))\<rparr>),
     (''desktop-environment'',
        \<lparr>st_name = ''desktop-environment'', st_description = ''Entorno de escritorio'',
         st_type = ''service'', st_runlevels = [5],
         st_start = Some (\<lambda>w. (Inr (JObj [(''pid'', JNum 1009), (''status'', JStr ''running''),
                                   (''session'', JStr ''yOS-gnome'')]),
                                  delay 70 w))\<rparr>),
     (''window-manager'',
        \<lparr>st_name = ''window-manager'', st_description = ''Gestor de ventanas'',
         st_type = ''daemon'', st_runlevels = [5],
         st_start = Some (\<lambda>w. (Inr (JObj [(''pid'', JNum 1010), (''status'', JStr ''running''), (''windows'', JNum 0)]),
                                  delay 65 w))\<rparr>)]"

text \<open>
  \<open>startService(serviceName, runlevel)\<close> over the templates \<open>templates\<close>. The two checks
  throw before anything is built; \<open>startedAt\<close> is read from the clock; the template's
  \<open>start\<close> is awaited, and only after it has returned is the daemon entry pushed. For a
  daemon, reading \<open>startResult.pid\<close> of a \<open>null\<close> result is the runtime's
  \<open>TypeError\<close>, raised before the push.
\<close>

definition startServiceWith ::
  "'x serviceTemplate dict \<Rightarrow> string \<Rightarrow> nat \<Rightarrow> Stage3Init \<Rightarrow> 'x world
     \<Rightarrow> (error + serviceInfo) \<times> Stage3Init \<times> 'x world" where
  "startServiceWith templates serviceName rl this w =
    (case lookup templates serviceName of
       None \<Rightarrow> (Inl (ServiceNotFound serviceName), this, w)
     | Some template \<Rightarrow>
        if rl \<notin> set (st_runlevels template)
        then (Inl (ServiceNotAvailable serviceName rl), this, w)
        else
         (let serviceInfo =
                \<lparr>si_name = st_name template, si_description = st_description template,
                 si_type = st_type template, si_runlevels = st_runlevels template,
                 si_startedAt = clock w, si_runlevel = rl,
                 si_process = None, si_status = None\<rparr>
          in case st_start template of
               None \<Rightarrow> (Inr serviceInfo, this, w)
             | Some startAction \<Rightarrow>
                (case startAction w of
                   (Inl e, w1) \<Rightarrow> (Inl e, this, w1)
                 | (Inr startResult, w1) \<Rightarrow>
                     if st_type template = ''daemon'' \<and> startResult = JNull
                     then (Inl (TypeError ''pid''), this, w1)
                     else
                      (Inr (serviceInfo\<lparr>si_process := Some startResult,
                                        si_status := Some ''running''\<rparr>),
                       (if st_type template = ''daemon''
                        then this\<lparr>daemons := daemons this @
                                    [\<lparr>dm_name = serviceName,
                                      dm_pid = prop_of startResult ''pid'',
                                      dm_since = si_startedAt serviceInfo\<rparr>]\<rparr>
                        else this),
                       w1))))"

definition startService ::
  "string \<Rightarrow> nat \<Rightarrow> Stage3Init \<Rightarrow> 'x world \<Rightarrow> (error + serviceInfo) \<times> Stage3Init \<times> 'x world" where
  "startService serviceName rl this w =
     startServiceWith serviceTemplates serviceName rl this w"

text \<open>
  The \<open>for\<close> loop of \<open>enterRunlevel\<close>: a delay of 20 ms, then \<open>startService\<close> inside a
  \<open>try\<close>. On success the service is stored under its name; the \<open>catch\<close> block only
  prints the error with \<open>console.error\<close>, and the loop goes on. \<open>out\<close> is the list of
  these \<open>console.error\<close> calls, each as the service name and the error caught.
\<close>

fun startEach ::
  "'x serviceTemplate dict \<Rightarrow> string list \<Rightarrow> nat \<Rightarrow> Stage3Init \<Rightarrow> 'x world
     \<Rightarrow> (string \<times> error) list \<Rightarrow> Stage3Init \<times> 'x world \<times> (string \<times> error) list" where
  "startEach templates [] rl this w out = (this, w, out)"
| "startEach templates (serviceName # rest) rl this w out =
     (case startServiceWith templates serviceName rl this (delay 20 w) of
        (Inl e, this1, w1) \<Rightarrow>
          startEach templates rest rl this1 w1 (out @ [(serviceName, e)])
      | (Inr service, this1, w1) \<Rightarrow>
          startEach templates rest rl
            (this1\<lparr>services := assign (services this1) serviceName service\<rparr>) w1 out)"

text \<open>
  \<open>enterRunlevel(runlevel)\<close>: the names are \<open>this.serviceTable[runlevel] || []\<close>. Reading
  the table before \<open>initInitSystem\<close> has assigned it is the runtime's \<open>TypeError\<close>, the
  only error the method lets out.
\<close>

definition enterRunlevelWith ::
  "'x serviceTemplate dict \<Rightarrow> nat \<Rightarrow> Stage3Init \<Rightarrow> 'x world \<Rightarrow> (string \<times> error) list
     \<Rightarrow> error option \<times> Stage3Init \<times> 'x world \<times> (string \<times> error) list" where
  "enterRunlevelWith templates rl this w out =
    (case serviceTable this of
       None \<Rightarrow> (Some (TypeError ''serviceTable''), this, w, out)
     | Some table \<Rightarrow>
        (let names = (case map_of table rl of None \<Rightarrow> [] | Some ns \<Rightarrow> ns) in
         if names = [] then (None, this, w, out)
         else (None, startEach templates names rl this w out)))"

definition enterRunlevel ::
  "nat \<Rightarrow> Stage3Init \<Rightarrow> 'x world \<Rightarrow> (string \<times> error) list
     \<Rightarrow> error option \<times> Stage3Init \<times> 'x world \<times> (string \<times> error) list" where
  "enterRunlevel rl this w out = enterRunlevelWith serviceTemplates rl this w out"

text \<open>
  What a call \<open>startService(serviceName, rl)\<close> made in the environment \<open>w\<close> does to the
  environment and whether it throws, read off the four places where the method can leave
  with an error: the name has no template; the template does not list \<open>rl\<close>; the
  template's \<open>start\<close> throws; the service is a daemon and \<open>start\<close> returned \<open>null\<close>.
  \<open>serviceWorld\<close> is the environment after the call (the template's \<open>start\<close> is run
  only when both checks pass), \<open>startError\<close> the error thrown, \<open>None\<close> when the call
  returns a service.
\<close>

definition serviceWorld :: "'x serviceTemplate dict \<Rightarrow> nat \<Rightarrow> string \<Rightarrow> 'x world \<Rightarrow> 'x world" where
  "serviceWorld templates rl serviceName w =
     (case lookup templates serviceName of
        None \<Rightarrow> w
      | Some template \<Rightarrow>
          if rl \<notin> set (st_runlevels template) then w
          else (case st_start template of
                  None \<Rightarrow> w
                | Some startAction \<Rightarrow> snd (startAction w)))"

definition startError ::
  "'x serviceTemplate dict \<Rightarrow> nat \<Rightarrow> string \<Rightarrow> 'x world \<Rightarrow> error option" where
  "startError templates rl serviceName w =
     (case lookup templates serviceName of
        None \<Rightarrow> Some (ServiceNotFound serviceName)
      | Some template \<Rightarrow>
          if rl \<notin> set (st_runlevels template)
          then Some (ServiceNotAvailable serviceName rl)
          else (case st_start template of
                  None \<Rightarrow> None
                | Some startAction \<Rightarrow>
                    (case fst (startAction w) of
                       Inl e \<Rightarrow> Some e
                     | Inr startResult \<Rightarrow>
                         if st_type template = ''daemon'' \<and> startResult = JNull
                         then Some (TypeError ''pid'') else None)))"

text \<open>The environment in which the loop of \<open>enterRunlevel\<close> reaches the name after
  \<open>names\<close>: each turn is a delay of 20 ms and a call of \<open>startService\<close>.\<close>

definition worldAfter ::
  "'x serviceTemplate dict \<Rightarrow> nat \<Rightarrow> string list \<Rightarrow> 'x world \<Rightarrow> 'x world" where
  "worldAfter templates rl names w =
     foldl (\<lambda>w serviceName. serviceWorld templates rl serviceName (delay 20 w)) w names"

section \<open>Integrity verification\<close>

text \<open>
  The \<open>for\<close> loops of the verification methods: each required item pushes one line, to
  the first list when it is present and to the second when it is not.
\<close>

fun classify ::
  "('a \<Rightarrow> bool) \<Rightarrow> ('a \<Rightarrow> string) \<Rightarrow> ('a \<Rightarrow> string) \<Rightarrow> 'a list
     \<Rightarrow> string list \<times> string list \<Rightarrow> string list \<times> string list" where
  "classify present ok missing [] acc = acc"
| "classify present ok missing (x # xs) acc =
     classify present ok missing xs
       (if present x then (fst acc @ [ok x], snd acc) else (fst acc, snd acc @ [missing x]))"

text \<open>\<open>String.prototype.toUpperCase\<close> on the ASCII letters, which is all the table
  names hold.\<close>

definition toUpperCase :: "string \<Rightarrow> string" where
  "toUpperCase s =
     map (\<lambda>c. if 97 \<le> (of_char c :: nat) \<and> (of_char c :: nat) \<le> 122
              then char_of ((of_char c :: nat) - 32) else c) s"

text \<open>The fields of \<open>KernelInitializer\<close> that \<open>verifyKernelIntegrity\<close> reads.
  \<open>interruptHandlers\<close> is keyed by vector number.\<close>

record KernelInitializer =
  ki_kernelModules :: "jsval dict"
  ki_systemTables :: "jsval dict"
  ki_deviceTree :: jsval
  ki_interruptHandlers :: "(nat \<times> jsval) list"
  ki_kernelHeap :: jsval
  ki_bootParams :: jsval

definition newKernelInitializer :: KernelInitializer where
  "newKernelInitializer =
     \<lparr>ki_kernelModules = [], ki_systemTables = [], ki_deviceTree = JObj [],
      ki_interruptHandlers = [], ki_kernelHeap = JNull, ki_bootParams = JObj []\<rparr>"

record integrityReport =
  ir_healthy :: bool
  ir_checks :: "string list"
  ir_issues :: "string list"
  ir_warnings :: "string list"
  ir_tables :: nat
  ir_interrupts :: nat
  ir_modules :: nat
  ir_timestamp :: nat

text \<open>
  The checks of \<open>verifyKernelIntegrity()\<close>, in the order of the source: the lists
  \<open>checks\<close>, \<open>issues\<close> and \<open>warnings\<close> as they stand at the \<open>return\<close>.
\<close>

definition kernelChecks :: "KernelInitializer \<Rightarrow> string list \<times> string list \<times> string list" where
  "kernelChecks this =
    (let (checks1, issues1) =
            classify (\<lambda>table. truthy_opt (lookup (ki_systemTables this) table))
              (\<lambda>table. toUpperCase table @ '': OK'')
              (\<lambda>table. ''Tabla '' @ table @ '' no inicializada'')
              [''gdt'', ''idt'', ''tss'', ''pml4''] ([], []);
         (checks2, issues2) =
            classify (\<lambda>vector. truthy_opt (map_of (ki_interruptHandlers this) vector))
              (\<lambda>vector. ''Interrupt '' @ toString10 vector @ '': OK'')
              (\<lambda>vector. ''Manejador de interrupci'' @ [CHR 0xF3] @ ''n '' @ toString10 vector
                           @ '' faltante'')
              [0, 8, 13, 14, 32] (checks1, issues1);
         (checks3, issues3) =
            classify (\<lambda>module. truthy_opt (lookup (ki_kernelModules this) module))
              (\<lambda>module. ''M'' @ [CHR 0xF3] @ ''dulo '' @ module @ '': OK'')
              (\<lambda>module. ''M'' @ [CHR 0xF3] @ ''dulo '' @ module @ '' no inicializado'')
              [''scheduler'', ''memory'', ''time'', ''ipc''] (checks2, issues2);
         (checks4, issues4) =
            (if truthy (ki_kernelHeap this)
             then (checks3 @ [''Heap del kernel: OK''], issues3)
             else (checks3, issues3 @ [''Heap del kernel no inicializado'']));
         (checks5, warnings5) =
            (if truthy (ki_deviceTree this) \<and> truthy_opt (prop_of (ki_deviceTree this) ''root'')
             then (checks4 @ [[CHR 0xC1] @ ''rbol de dispositivos: OK''], [])
             else (checks4, [[CHR 0xC1] @ ''rbol de dispositivos incompleto'']));
         (checks6, warnings6) =
            (if truthy (ki_bootParams this)
                \<and> truthy_opt (prop_of (ki_bootParams this) ''kernelVersion'')
             then (checks5 @ [''Par'' @ [CHR 0xE1] @ ''metros de boot: OK''], warnings5)
             else (checks5, warnings5 @ [''Par'' @ [CHR 0xE1] @ ''metros de boot no configurados'']))
     in (checks6, issues4, warnings6))"

text \<open>
  \<open>verifyKernelIntegrity()\<close>: a delay of 70 ms, the checks, and the report, whose
  \<open>timestamp\<close> is \<open>Date.now()\<close> at the \<open>return\<close>. The method assigns to no field; the
  initializer is returned beside the report to make that explicit.
\<close>

definition verifyKernelIntegrity ::
  "KernelInitializer \<Rightarrow> 'x world \<Rightarrow> integrityReport \<times> KernelInitializer \<times> 'x world" where
  "verifyKernelIntegrity this w =
    (let w1 = delay 70 w;
         (checks, issues, warnings) = kernelChecks this
     in (\<lparr>ir_healthy = (length issues = 0),
          ir_checks = checks,
          ir_issues = issues,
          ir_warnings = warnings,
          ir_tables = length (keys (ki_systemTables this)),
          ir_interrupts = length (ki_interruptHandlers this),
          ir_modules = length (keys (ki_kernelModules this)),
          ir_timestamp = clock w1\<rparr>,
         this, w1))"

text \<open>The report of \<open>Stage3Init.checkSystemStatus\<close>. \<open>uptime\<close> is
  \<open>Date.now() - this.startTime\<close>: a number of milliseconds, or \<open>NaN\<close> (\<open>None\<close>) when
  \<open>this.startTime\<close> is \<open>undefined\<close>.\<close>

record systemStatus =
  ss_ready :: bool
  ss_checks :: "string list"
  ss_issues :: "string list"
  ss_warnings :: "string list"
  ss_runlevel :: nat
  ss_servicesRunning :: nat
  ss_uptime :: "int option"
  ss_timestamp :: nat

text \<open>\<open>checkSystemResources()\<close>: a delay of 25 ms and constant figures, of which the
  report uses the free memory and the CPU load.\<close>

definition checkSystemResources :: "'x world \<Rightarrow> (nat \<times> nat) \<times> 'x world" where
  "checkSystemResources w = ((3 * 1024 * 1024 * 1024, 15), delay 25 w)"

text \<open>
  The checks of \<open>checkSystemStatus()\<close>, in the order of the source, given the figures
  \<open>checkSystemResources\<close> returns: the lists \<open>checks\<close>, \<open>issues\<close> and \<open>warnings\<close> as
  they stand at the \<open>return\<close>.
\<close>

definition systemChecks ::
  "Stage3Init \<Rightarrow> nat \<Rightarrow> nat \<Rightarrow> string list \<times> string list \<times> string list" where
  "systemChecks this memoryFree cpuLoad =
    (let (checks1, issues1) =
            classify
              (\<lambda>serviceName. case lookup (services this) serviceName of
                                None \<Rightarrow> False
                              | Some service \<Rightarrow> si_status service = Some ''running'')
              (\<lambda>serviceName. serviceName @ '': OK'')
              (\<lambda>serviceName. serviceName @ '' no est'' @ [CHR 0xE1] @ '' ejecut''
                                @ [CHR 0xE1] @ ''ndose'')
              [''basic-network'', ''syslog'', ''display-manager''] ([], []);
         checks2 = checks1 @ map (\<lambda>mount. mount @ '': montado'') [''/'', ''/proc'', ''/dev''];
         (checks3, warnings3) =
            (if length (userSessions this) > 0
             then (checks2 @ [''Sesiones de usuario: '' @ toString10 (length (userSessions this))],
                   [])
             else (checks2, [''No hay sesiones de usuario activas'']));
         (checks4, issues4) =
            (if runlevel this = 5
             then (if lookup (services this) ''display-manager'' \<noteq> None
                      \<and> lookup (services this) ''window-manager'' \<noteq> None
                   then (checks3 @ [''Entorno gr'' @ [CHR 0xE1] @ ''fico: OK''], issues1)
                   else (checks3, issues1 @ [''Entorno gr'' @ [CHR 0xE1] @ ''fico incompleto'']))
             else (checks3, issues1));
         checks5 = checks4 @ [''Memoria: '' @ toString10 memoryFree @ '' libre'',
                              ''CPU: '' @ toString10 cpuLoad @ ''% carga''];
         warnings5 = (if memoryFree < 100 * 1024 * 1024
                      then warnings3 @ [''Memoria baja''] else warnings3)
     in (checks5, issues4, warnings5))"

text \<open>
  \<open>checkSystemStatus()\<close>: a delay of 50 ms, the checks with the delay of
  \<open>checkSystemResources\<close> among them, and the report, whose \<open>uptime\<close> and
  \<open>timestamp\<close> read \<open>Date.now()\<close> at the \<open>return\<close>. The method assigns to no field.
\<close>

definition checkSystemStatus ::
  "Stage3Init \<Rightarrow> 'x world \<Rightarrow> systemStatus \<times> Stage3Init \<times> 'x world" where
  "checkSystemStatus this w =
    (let w1 = delay 50 w;
         ((memoryFree, cpuLoad), w2) = checkSystemResources w1;
         (checks, issues, warnings) = systemChecks this memoryFree cpuLoad
     in (\<lparr>ss_ready = (length issues = 0),
          ss_checks = checks,
          ss_issues = issues,
          ss_warnings = warnings,
          ss_runlevel = runlevel this,
          ss_servicesRunning =
             length (filter (\<lambda>s. si_status s = Some ''running'') (map snd (services this))),
          ss_uptime = (case initStartTime this of
                         None \<Rightarrow> None
                       | Some t \<Rightarrow> Some (int (clock w2) - int t)),
          ss_timestamp = clock w2\<rparr>,
         this, w2))"

section \<open>Concrete inputs\<close>

text \<open>The first three entries of \<open>essentialModules\<close>: \<open>scheduler\<close>, \<open>memory-manager\<close>
  and \<open>process-manager\<close>.\<close>

definition coreModules :: "moduleDef list" where
  "coreModules = take 3 essentialModules"

text \<open>A module that depends on itself, and two modules that depend on each other.\<close>

definition selfDependent :: "moduleDef list" where
  "selfDependent =
    [\<lparr>md_name = ''scheduler'', md_path = ''kernel/core/scheduler.js'', md_priority = 1,
      md_dependencies = [''scheduler''], md_exports = []\<rparr>]"

definition mutualCycle :: "moduleDef list" where
  "mutualCycle =
    [\<lparr>md_name = ''scheduler'', md_path = ''kernel/core/scheduler.js'', md_priority = 1,
      md_dependencies = [''memory-manager''], md_exports = []\<rparr>,
     \<lparr>md_name = ''memory-manager'', md_path = ''kernel/core/memory-manager.js'',
      md_priority = 1, md_dependencies = [''scheduler''], md_exports = []\<rparr>]"

text \<open>A definition whose name has no template and whose dependency is not loaded.\<close>

definition watchdogDef :: moduleDef where
  "watchdogDef =
     \<lparr>md_name = ''watchdog'', md_path = ''kernel/core/watchdog.js'', md_priority = 1,
      md_dependencies = [''scheduler''], md_exports = []\<rparr>"

text \<open>
  A pipeline of three stages \<open>S1\<close>, \<open>S2\<close>, \<open>S3\<close> whose actions count their
  invocations: each appends its name to the collaborators' log. \<open>S1\<close> and \<open>S3\<close>
  succeed; \<open>S2\<close> returns \<open>success: false\<close> with the error \<open>disk\<close>.
\<close>

definition threeStages :: "string \<Rightarrow> error + (string list) stage" where
  "threeStages stageName =
    (if stageName = ''S1'' then
       Inr (\<lambda>w. (Inr \<lparr>sr_success = True, sr_kernelModules = None, sr_services = None,
                        sr_error = None\<rparr>, w\<lparr>collab := collab w @ [''S1'']\<rparr>))
     else if stageName = ''S2'' then
       Inr (\<lambda>w. (Inr \<lparr>sr_success = False, sr_kernelModules = None, sr_services = None,
                        sr_error = Some ''disk''\<rparr>, w\<lparr>collab := collab w @ [''S2'']\<rparr>))
     else if stageName = ''S3'' then
       Inr (\<lambda>w. (Inr \<lparr>sr_success = True, sr_kernelModules = None, sr_services = None,
                        sr_error = None\<rparr>, w\<lparr>collab := collab w @ [''S3'']\<rparr>))
     else Inl (StageNotFound stageName))"

text \<open>
  A pipeline of one stage \<open>S1\<close> that boots from a medium which it uses up: while the
  medium is there (\<open>collab\<close>), \<open>S1\<close> succeeds, produces one kernel module and removes
  the medium; without it, \<open>S1\<close> returns \<open>success: false\<close>.
\<close>

definition onceStages :: "string \<Rightarrow> error + bool stage" where
  "onceStages stageName =
    (if stageName = ''S1'' then
       Inr (\<lambda>w. if collab w
                then (Inr \<lparr>sr_success = True,
                           sr_kernelModules = Some [(''scheduler'', JObj [(''status'', JStr ''loaded'')])],
                           sr_services = None, sr_error = None\<rparr>,
                      w\<lparr>collab := False\<rparr>)
                else (Inr \<lparr>sr_success = False, sr_kernelModules = None, sr_services = None,
                           sr_error = Some ''no medium''\<rparr>, w))
     else Inl (StageNotFound stageName))"

definition onceLoader :: BootLoader where
  "onceLoader = newBootLoader\<lparr>stages := [''S1'']\<rparr>"

definition onceWorld :: "bool world" where
  "onceWorld = \<lparr>clock = 1000, collab = True\<rparr>"

definition threeStageLoader :: BootLoader where
  "threeStageLoader = newBootLoader\<lparr>stages := [''S1'', ''S2'', ''S3'']\<rparr>"

definition countingWorld :: "(string list) world" where
  "countingWorld = \<lparr>clock = 1000, collab = []\<rparr>"

text \<open>An environment with no collaborator state, the clock at 1000.\<close>

definition plainWorld :: "unit world" where
  "plainWorld = \<lparr>clock = 1000, collab = ()\<rparr>"

text \<open>
  Two services, \<open>svc-a\<close> for runlevel 3 and \<open>svc-b\<close> for runlevel 5, a third whose
  \<open>start\<close> throws, a fourth, a daemon, whose \<open>start\<close> returns \<open>null\<close>, and two init
  objects: one whose service table asks for \<open>svc-a\<close> and \<open>svc-b\<close> at runlevel 3, one
  whose table asks for all four and for a name without template.
\<close>

definition exampleTemplates :: "unit serviceTemplate dict" where
  "exampleTemplates =
    [(''svc-a'',
        \<lparr>st_name = ''svc-a'', st_description = ''Service A'', st_type = ''daemon'',
         st_runlevels = [3],
         st_start = Some (\<lambda>w. (Inr (JObj [(''pid'', JNum 2001), (''status'', JStr ''running'')]),
                                  delay 30 w))\<rparr>),
     (''svc-b'',
        \<lparr>st_name = ''svc-b'', st_description = ''Service B'', st_type = ''daemon'',
         st_runlevels = [5],
         st_start = Some (\<lambda>w. (Inr (JObj [(''pid'', JNum 2002), (''status'', JStr ''running'')]),
                                  delay 30 w))\<rparr>),
     (''svc-c'',
        \<lparr>st_name = ''svc-c'', st_description = ''Service C'', st_type = ''daemon'',
         st_runlevels = [3],
         st_start = Some (\<lambda>w. (Inl (Thrown ''no device''), delay 10 w))\<rparr>),
     (''svc-n'',
        \<lparr>st_name = ''svc-n'', st_description = ''Service N'', st_type = ''daemon'',
         st_runlevels = [3],
         st_start = Some (\<lambda>w. (Inr JNull, delay 15 w))\<rparr>)]"

definition exampleInit :: Stage3Init where
  "exampleInit = newStage3Init\<lparr>serviceTable := Some [(3, [''svc-a'', ''svc-b''])]\<rparr>"

definition failingInit :: Stage3Init where
  "failingInit =
     newStage3Init\<lparr>serviceTable :=
                      Some [(3, [''svc-c'', ''svc-b'', ''ssh'', ''svc-n'', ''svc-a''])]\<rparr>"

section \<open>Dictionaries\<close>

declare toString16.simps [simp del] toString10.simps [simp del]

lemma keys_Nil [simp]: "keys [] = []"
  by (simp add: keys_def)

lemma keys_Cons [simp]: "keys (kv # d) = fst kv # keys d"
  by (simp add: keys_def)

lemma lookup_Nil [simp]: "lookup [] k = None"
  by (simp add: lookup_def)

lemma lookup_Cons [simp]:
  "lookup (kv # d) k = (if fst kv = k then Some (snd kv) else lookup d k)"
  by (cases kv) (simp add: lookup_def)

lemma lookup_None_iff: "lookup d k = None \<longleftrightarrow> k \<notin> set (keys d)"
  by (induction d) auto

lemma keys_assign_new: "k \<notin> set (keys d) \<Longrightarrow> keys (assign d k v) = keys d @ [k]"
  by (induction d) auto

lemma keys_assign_old: "k \<in> set (keys d) \<Longrightarrow> keys (assign d k v) = keys d"
  by (induction d) auto

lemma set_keys_assign: "set (keys (assign d k v)) = insert k (set (keys d))"
  by (cases "k \<in> set (keys d)") (auto simp: keys_assign_new keys_assign_old)

lemma lookup_assign_same: "lookup (assign d k v) k = Some v"
  by (induction d) auto

lemma lookup_assign_other: "k' \<noteq> k \<Longrightarrow> lookup (assign d k v) k' = lookup d k'"
  by (induction d) auto

lemma distinct_keys_assign: "distinct (keys d) \<Longrightarrow> distinct (keys (assign d k v))"
  by (cases "k \<in> set (keys d)") (simp_all add: keys_assign_new keys_assign_old)

lemma count_one: "distinct xs \<Longrightarrow> x \<in> set xs \<Longrightarrow> length (filter (\<lambda>k. k = x) xs) = 1"
  by (induction xs) (auto simp: filter_empty_conv)

lemma index_of_nth: "distinct xs \<Longrightarrow> i < length xs \<Longrightarrow> index_of xs (xs ! i) = i"
  by (induction xs arbitrary: i) (auto simp: nth_Cons split: nat.splits)

section \<open>Properties of the kernel loader\<close>

lemma modules_registerExports [simp]: "modules (registerExports owner xs this) = modules this"
  by (induction xs arbitrary: this) auto

lemma snd_loadModule [simp]: "snd (loadModule moduleDef this) = this"
  by (simp add: loadModule_def split: option.splits)

lemma loadModule_Inr_deps:
  "fst (loadModule moduleDef this) = Inr m \<Longrightarrow>
     set (md_dependencies moduleDef) \<subseteq> set (keys (modules this))"
  by (auto simp: loadModule_def find_None_iff lookup_None_iff split: option.splits)

text \<open>
  What a completed loading loop has done: the names were appended to the keys of
  \<open>this.modules\<close> in the order of the list, and each module found its dependencies among
  the keys present before the loop or among the names before it in the list.
\<close>

lemma loadEach_order:
  "loadEach ds this = (None, this') \<Longrightarrow> distinct (map md_name ds) \<Longrightarrow>
   set (map md_name ds) \<inter> set (keys (modules this)) = {} \<Longrightarrow>
     keys (modules this') = keys (modules this) @ map md_name ds \<and>
     (\<forall>i<length ds. set (md_dependencies (ds ! i)) \<subseteq>
          set (keys (modules this)) \<union> set (map md_name (take i ds)))"
proof (induction ds arbitrary: this)
  case Nil
  then show ?case by simp
next
  case (Cons d ds)
  from Cons.prems(1) obtain m where m: "fst (loadModule d this) = Inr m"
    by (auto split: sum.splits)
  define this1 where "this1 = registerExports (md_name d) (md_exports d)
               (this\<lparr>modules := assign (modules this) (md_name d) m\<rparr>)"
  have rest: "loadEach ds this1 = (None, this')"
    using Cons.prems(1) m by (simp add: this1_def)
  have fresh: "md_name d \<notin> set (keys (modules this))"
    using Cons.prems(3) by auto
  have k1: "keys (modules this1) = keys (modules this) @ [md_name d]"
    using fresh by (simp add: this1_def keys_assign_new)
  have disj: "set (map md_name ds) \<inter> set (keys (modules this1)) = {}"
    using Cons.prems(2,3) by (auto simp: k1)
  have IH: "keys (modules this') = keys (modules this1) @ map md_name ds \<and>
     (\<forall>i<length ds. set (md_dependencies (ds ! i)) \<subseteq>
          set (keys (modules this1)) \<union> set (map md_name (take i ds)))"
    using Cons.IH[OF rest _ disj] Cons.prems(2) by simp
  have d0: "set (md_dependencies d) \<subseteq> set (keys (modules this))"
    using loadModule_Inr_deps[OF m] .
  show ?case
  proof (intro conjI allI impI)
    show "keys (modules this') = keys (modules this) @ map md_name (d # ds)"
      using IH k1 by simp
  next
    fix i assume i: "i < length (d # ds)"
    show "set (md_dependencies ((d # ds) ! i)) \<subseteq>
          set (keys (modules this)) \<union> set (map md_name (take i (d # ds)))"
    proof (cases i)
      case 0
      then show ?thesis using d0 by simp
    next
      case (Suc j)
      then have "j < length ds" using i by simp
      then have "set (md_dependencies (ds ! j)) \<subseteq>
          set (keys (modules this1)) \<union> set (map md_name (take j ds))"
        using IH by blast
      then show ?thesis using Suc k1 by auto
    qed
  qed
qed

lemma distinct_names_sort_key:
  "distinct (map md_name (sort_key f defs)) = distinct (map md_name defs)"
proof -
  have "mset (map md_name (sort_key f defs)) = mset (map md_name defs)"
    by simp
  then show ?thesis by (rule mset_eq_imp_distinct_iff)
qed

lemma load_order:
  assumes dist: "distinct (map md_name defs)" and fresh: "modules this = []"
      and ok: "loadEssentialModulesWith defs this = (None, this')"
  shows "keys (modules this') = map md_name (sort_key md_priority defs)"
    and "\<And>m dep. m \<in> set defs \<Longrightarrow> dep \<in> set (md_dependencies m) \<Longrightarrow>
           dep \<in> set (keys (modules this')) \<and>
           index_of (keys (modules this')) dep < index_of (keys (modules this')) (md_name m)"
proof -
  let ?ds = "sort_key md_priority defs"
  let ?order = "keys (modules this')"
  have d: "distinct (map md_name ?ds)"
    using dist by (simp add: distinct_names_sort_key)
  have L: "?order = keys (modules this) @ map md_name ?ds \<and>
     (\<forall>i<length ?ds. set (md_dependencies (?ds ! i)) \<subseteq>
          set (keys (modules this)) \<union> set (map md_name (take i ?ds)))"
    by (rule loadEach_order) (use ok d fresh in \<open>simp_all add: loadEssentialModulesWith_def\<close>)
  then show order: "?order = map md_name ?ds"
    using fresh by simp
  fix m dep
  assume m: "m \<in> set defs" and dep: "dep \<in> set (md_dependencies m)"
  from m have "m \<in> set ?ds" by simp
  then obtain j where j: "j < length ?ds" "?ds ! j = m"
    by (metis in_set_conv_nth)
  have "dep \<in> set (map md_name (take j ?ds))"
    using L j dep fresh by auto
  then have "dep \<in> set (take j (map md_name ?ds))"
    by (simp add: take_map)
  then obtain i where i: "i < j" "map md_name ?ds ! i = dep"
    using j(1) by (auto simp: in_set_conv_nth)
  have ilen: "i < length (map md_name ?ds)" using i(1) j(1) by simp
  have jlen: "j < length (map md_name ?ds)" using j(1) by simp
  have idep: "index_of (map md_name ?ds) dep = i"
    using index_of_nth[OF d ilen] i(2) by simp
  have jm: "index_of (map md_name ?ds) (md_name m) = j"
    using index_of_nth[OF d jlen] j by simp
  have "dep \<in> set (map md_name ?ds)"
    using i(2) ilen nth_mem by metis
  then show "dep \<in> set ?order \<and> index_of ?order dep < index_of ?order (md_name m)"
    using idep jm i(1) order by simp
qed

lemma loadEach_error:
  "fst (loadEach ds this) = Some e \<Longrightarrow>
     \<exists>n\<in>set (map md_name ds). e = EssentialModuleLoadFailed n"
  by (induction ds arbitrary: this) (auto split: sum.splits)

lemma find_first_missing:
  assumes "\<exists>dep\<in>set deps. P dep"
  shows "\<exists>dep\<in>set deps. P dep \<and> find P deps = Some dep"
  using assms by (induction deps) auto

lemma symbols_registerExports_other:
  "exportName \<notin> set exports \<Longrightarrow>
     lookup (symbols (registerExports owner exports this)) exportName =
     lookup (symbols this) exportName"
  by (induction exports arbitrary: this) (auto simp: lookup_assign_other)

lemma symbols_registerExports_owner:
  "exportName \<in> set exports \<Longrightarrow>
     map_option sym_module (lookup (symbols (registerExports owner exports this)) exportName)
       = Some owner"
proof (induction exports arbitrary: this)
  case Nil
  then show ?case by simp
next
  case (Cons e rest)
  show ?case
  proof (cases "exportName \<in> set rest")
    case True
    then show ?thesis using Cons.IH by simp
  next
    case False
    then have "exportName = e" using Cons.prems by simp
    then show ?thesis using False
      by (simp add: symbols_registerExports_other lookup_assign_same)
  qed
qed

lemma distinct_registerExports:
  "distinct (keys (symbols this)) \<Longrightarrow>
     distinct (keys (symbols (registerExports owner exports this)))"
  by (induction exports arbitrary: this) (auto simp: distinct_keys_assign)

text \<open>\<open>resolveSymbols\<close> assigns in the same way: a function name of a module's
  \<open>api\<close> belongs to that module once the module's entries are written, whoever owned it
  before.\<close>

lemma apiSymbols_other:
  "funcName \<notin> set api \<Longrightarrow>
     lookup (fst (apiSymbols rnd moduleName api acc)) funcName = lookup (fst acc) funcName"
proof (induction api arbitrary: acc)
  case Nil
  then show ?case by simp
next
  case (Cons f api)
  then show ?case by (cases acc) (simp add: lookup_assign_other)
qed

lemma apiSymbols_owner:
  "funcName \<in> set api \<Longrightarrow>
     map_option sym_module (lookup (fst (apiSymbols rnd moduleName api acc)) funcName)
       = Some moduleName"
proof (induction api arbitrary: acc)
  case Nil
  then show ?case by simp
next
  case (Cons f api)
  obtain g n where acc: "acc = (g, n)" by (cases acc)
  show ?case
  proof (cases "funcName \<in> set api")
    case True
    then show ?thesis using Cons.IH acc by simp
  next
    case False
    then have "funcName = f" using Cons.prems by simp
    then show ?thesis using False acc
      by (simp add: apiSymbols_other lookup_assign_same)
  qed
qed

lemmas plain_eval = plainDef_def plainKey_def objectPrototypeKeys_def isIndexKey_def

lemmas stage2_eval = loadEssentialModules_def loadEssentialModulesWith_def loadModule_def
  essentialModules_def moduleTemplates_def newStage2KernelLoader_def coreModules_def
  selfDependent_def mutualCycle_def watchdogDef_def

lemma dependsOnI:
  "m \<in> set defs \<Longrightarrow> dep \<in> set (md_dependencies m) \<Longrightarrow> n = md_name m
     \<Longrightarrow> (dep, n) \<in> dependsOn defs"
  by (auto simp: dependsOn_def)

lemma acyclic_essentialModules: "acyclic (dependsOn essentialModules)"
proof -
  define rank :: "string \<Rightarrow> nat" where
    "rank n = (if n = ''process-manager'' then 1 else if n = ''ipc-system'' then 2
               else if n = ''syscalls'' then 2 else 0)" for n
  have "dependsOn essentialModules \<subseteq> measure rank"
    by (auto simp: dependsOn_def essentialModules_def rank_def)
  then have "wf (dependsOn essentialModules)"
    by (rule wf_subset[OF wf_measure])
  then show ?thesis by (rule wf_acyclic)
qed

text \<open>
  Claim C1, as amended. The loader does not reorder by dependencies: it sorts by priority
  (stably) and loads in that order, failing at the first module with a dependency that is
  not loaded yet. For every collection of module definitions with distinct, plain names
  given to a loader with no module loaded, whenever loading completes, the load order (the keys of
  \<open>this.modules\<close>) is the priority-sorted order of the names, and every module stands
  after all of its dependencies: for each module \<open>m\<close> and each name \<open>dep\<close> in its
  dependencies, \<open>dep\<close> is in the order and its index is strictly less than the index of
  \<open>m\<close>.
\<close>

theorem C1_load_order_respects_dependencies:
  assumes "list_all plainDef defs"
      and "distinct (map md_name defs)" and "modules this = []"
      and "loadEssentialModulesWith defs this = (None, this')"
  shows "keys (modules this') = map md_name (sort_key md_priority defs) \<and>
         (\<forall>m\<in>set defs. \<forall>dep\<in>set (md_dependencies m).
             dep \<in> set (keys (modules this')) \<and>
             index_of (keys (modules this')) dep
               < index_of (keys (modules this')) (md_name m))"
  using load_order[OF assms(2,3,4)] by blast

text \<open>The three core modules load, in the order of their priorities and positions, and
  \<open>scheduler\<close> stands before \<open>process-manager\<close>, which depends on it.\<close>

theorem C1_load_order_witness:
  "list_all plainDef coreModules \<and>
   distinct (map md_name coreModules) \<and>
   modules newStage2KernelLoader = [] \<and>
   fst (loadEssentialModulesWith coreModules newStage2KernelLoader) = None \<and>
   keys (modules (snd (loadEssentialModulesWith coreModules newStage2KernelLoader)))
     = [''scheduler'', ''memory-manager'', ''process-manager''] \<and>
   index_of (keys (modules (snd (loadEssentialModulesWith coreModules newStage2KernelLoader))))
       ''scheduler''
     < index_of (keys (modules (snd (loadEssentialModulesWith coreModules newStage2KernelLoader))))
       ''process-manager''"
proof -
  let ?this' = "snd (loadEssentialModulesWith coreModules newStage2KernelLoader)"
  have p: "list_all plainDef coreModules"
    by (simp add: stage2_eval plain_eval)
  have d: "distinct (map md_name coreModules)"
    by (simp add: stage2_eval)
  have f: "modules newStage2KernelLoader = []"
    by (simp add: stage2_eval)
  have none: "fst (loadEssentialModulesWith coreModules newStage2KernelLoader) = None"
    by (simp add: stage2_eval)
  then have ok: "loadEssentialModulesWith coreModules newStage2KernelLoader = (None, ?this')"
    by (simp add: prod_eq_iff)
  have pm: "essentialModules ! 2 \<in> set coreModules"
    by (simp add: stage2_eval)
  have dep: "''scheduler'' \<in> set (md_dependencies (essentialModules ! 2))"
    by (simp add: stage2_eval)
  have nm: "md_name (essentialModules ! 2) = ''process-manager''"
    by (simp add: stage2_eval)
  from C1_load_order_respects_dependencies[OF p d f ok] pm dep
  have "keys (modules ?this') = map md_name (sort_key md_priority coreModules)"
    and "index_of (keys (modules ?this')) ''scheduler''
           < index_of (keys (modules ?this')) (md_name (essentialModules ! 2))"
    by blast+
  moreover have "map md_name (sort_key md_priority coreModules)
                   = [''scheduler'', ''memory-manager'', ''process-manager'']"
    by (simp add: stage2_eval)
  ultimately show ?thesis using p d f none nm by simp
qed

text \<open>
  The claim as stated fails on the array the method is written with. It is a valid
  acyclic collection, but \<open>syscalls\<close> has priority 0 and is sorted first, its dependency
  \<open>process-manager\<close> is not loaded yet, and loading fails there: no order is produced and
  no module is loaded.
\<close>

theorem C1_load_order_counterexample:
  "validAcyclic essentialModules \<and>
   loadEssentialModules newStage2KernelLoader
     = (Some (EssentialModuleLoadFailed ''syscalls''), newStage2KernelLoader)"
proof -
  have "distinct (map md_name essentialModules)"
    by (simp add: essentialModules_def)
  moreover have "\<forall>m\<in>set essentialModules.
      set (md_dependencies m) \<subseteq> set (map md_name essentialModules)"
    by (simp add: essentialModules_def)
  ultimately have "validAcyclic essentialModules"
    using acyclic_essentialModules by (simp add: validAcyclic_def)
  moreover have "loadEssentialModules newStage2KernelLoader
     = (Some (EssentialModuleLoadFailed ''syscalls''), newStage2KernelLoader)"
    by (simp add: stage2_eval)
  ultimately show ?thesis by simp
qed

text \<open>
  Claim C2, as amended. Registering an exported symbol name never fails, and there is no
  conflict error: when a module registers a (plain) name that is already present in the
  symbol table, the table afterwards contains exactly one entry for that name, and it is the
  entry of the module that registered last. The earlier owner is overwritten.
\<close>

theorem C2_registration_overwrites:
  assumes "list_all plainKey exports"
      and "distinct (keys (symbols this))"
      and "lookup (symbols this) exportName = Some first"
      and "exportName \<in> set exports"
  shows "map_option sym_module (lookup (symbols (registerExports owner exports this)) exportName)
           = Some owner \<and>
         length (filter (\<lambda>k. k = exportName)
                   (keys (symbols (registerExports owner exports this)))) = 1"
proof -
  let ?this' = "registerExports owner exports this"
  have a: "map_option sym_module (lookup (symbols ?this') exportName) = Some owner"
    using assms(4) by (rule symbols_registerExports_owner)
  then have "lookup (symbols ?this') exportName \<noteq> None" by auto
  then have "exportName \<in> set (keys (symbols ?this'))"
    by (simp add: lookup_None_iff)
  then have "length (filter (\<lambda>k. k = exportName) (keys (symbols ?this'))) = 1"
    using distinct_registerExports[OF assms(2)] by (simp add: count_one)
  with a show ?thesis by simp
qed

text \<open>\<open>scheduler\<close> registers \<open>createProcess\<close> first; \<open>process-manager\<close> registers it
  again and owns it afterwards.\<close>

theorem C2_registration_witness:
  "list_all plainKey [''createProcess''] \<and>
   distinct (keys (symbols (registerExports ''scheduler'' [''createProcess'']
                               newStage2KernelLoader))) \<and>
   lookup (symbols (registerExports ''scheduler'' [''createProcess''] newStage2KernelLoader))
       ''createProcess''
     = Some \<lparr>sym_module = ''scheduler'', sym_address = ''kernel+0x100000'', sym_type = None\<rparr> \<and>
   map_option sym_module
     (lookup (symbols (registerExports ''process-manager'' [''createProcess'']
                        (registerExports ''scheduler'' [''createProcess'']
                           newStage2KernelLoader)))
        ''createProcess'') = Some ''process-manager'' \<and>
   length (filter (\<lambda>k. k = ''createProcess'')
             (keys (symbols (registerExports ''process-manager'' [''createProcess'']
                               (registerExports ''scheduler'' [''createProcess'']
                                  newStage2KernelLoader))))) = 1"
proof -
  let ?s1 = "registerExports ''scheduler'' [''createProcess''] newStage2KernelLoader"
  have p: "list_all plainKey [''createProcess'']"
    by (simp add: plain_eval)
  have d: "distinct (keys (symbols ?s1))"
    by (simp add: newStage2KernelLoader_def)
  have l: "lookup (symbols ?s1) ''createProcess''
     = Some \<lparr>sym_module = ''scheduler'', sym_address = ''kernel+0x100000'', sym_type = None\<rparr>"
    by (simp add: newStage2KernelLoader_def toString16.simps hexDigit_def)
  have m: "''createProcess'' \<in> set [''createProcess'']"
    by simp
  from C2_registration_overwrites[OF p d l m, of "''process-manager''"] p d l
  show ?thesis by simp
qed

text \<open>
  The claim as stated fails when the three core modules are loaded: loading completes
  without any error, and \<open>createProcess\<close> and \<open>terminateProcess\<close>, exported by
  \<open>scheduler\<close> first and by \<open>process-manager\<close> after it, belong to \<open>process-manager\<close>
  in the symbol table.
\<close>

theorem C2_registration_counterexample:
  "fst (loadEssentialModulesWith coreModules newStage2KernelLoader) = None \<and>
   map_option sym_module
     (lookup (symbols (snd (loadEssentialModulesWith coreModules newStage2KernelLoader)))
        ''createProcess'') = Some ''process-manager'' \<and>
   map_option sym_module
     (lookup (symbols (snd (loadEssentialModulesWith coreModules newStage2KernelLoader)))
        ''terminateProcess'') = Some ''process-manager''"
  by (simp add: stage2_eval)

text \<open>
  Claim C5, as amended. For every collection of module definitions with distinct, plain
  names that contains a dependency cycle (a module that depends on itself included), given to a
  loader with no module loaded, loading fails and produces no order. The error is the
  loader's general one, \<open>EssentialModuleLoadFailed\<close> for the module whose dependency was
  not loaded; there is no cycle error and the cycle is not reported.
\<close>

theorem C5_cycle_fails:
  assumes plain: "list_all plainDef defs"
      and dist: "distinct (map md_name defs)" and fresh: "modules this = []"
      and cyc: "\<not> acyclic (dependsOn defs)"
  shows "\<exists>n\<in>set (map md_name defs).
           fst (loadEssentialModulesWith defs this) = Some (EssentialModuleLoadFailed n)"
proof (cases "fst (loadEssentialModulesWith defs this)")
  case None
  then obtain this' where ok: "loadEssentialModulesWith defs this = (None, this')"
    by (cases "loadEssentialModulesWith defs this") simp
  let ?order = "keys (modules this')"
  have "dependsOn defs \<subseteq> measure (index_of ?order)"
    using load_order(2)[OF dist fresh ok] by (auto simp: dependsOn_def)
  then have "wf (dependsOn defs)"
    by (rule wf_subset[OF wf_measure])
  then have "acyclic (dependsOn defs)" by (rule wf_acyclic)
  with cyc show ?thesis by simp
next
  case (Some e)
  then have "fst (loadEach (sort_key md_priority defs) this) = Some e"
    by (simp add: loadEssentialModulesWith_def)
  from loadEach_error[OF this] Some show ?thesis by auto
qed

text \<open>A module that depends on itself: a cycle of length 1.\<close>

theorem C5_cycle_witness:
  "list_all plainDef selfDependent \<and>
   distinct (map md_name selfDependent) \<and>
   modules newStage2KernelLoader = [] \<and>
   \<not> acyclic (dependsOn selfDependent) \<and>
   fst (loadEssentialModulesWith selfDependent newStage2KernelLoader)
     = Some (EssentialModuleLoadFailed ''scheduler'')"
proof -
  have p: "list_all plainDef selfDependent"
    by (simp add: stage2_eval plain_eval)
  have d: "distinct (map md_name selfDependent)"
    by (simp add: stage2_eval)
  have f: "modules newStage2KernelLoader = []"
    by (simp add: stage2_eval)
  have "(''scheduler'', ''scheduler'') \<in> dependsOn selfDependent"
    by (rule dependsOnI[of "selfDependent ! 0"]) (simp_all add: selfDependent_def)
  then have "(''scheduler'', ''scheduler'') \<in> (dependsOn selfDependent)\<^sup>+"
    by (rule r_into_trancl)
  then have c: "\<not> acyclic (dependsOn selfDependent)"
    by (auto simp: acyclic_def)
  from C5_cycle_fails[OF p d f c] p d f c show ?thesis
    by (simp add: selfDependent_def)
qed

text \<open>
  The claim as stated fails on two modules that depend on each other: the error raised is
  the general loading error naming \<open>scheduler\<close> alone; it is no cycle error and it does
  not report the cycle (\<open>memory-manager\<close> is not named).
\<close>

theorem C5_cycle_counterexample:
  "\<not> acyclic (dependsOn mutualCycle) \<and>
   loadEssentialModulesWith mutualCycle newStage2KernelLoader
     = (Some (EssentialModuleLoadFailed ''scheduler''), newStage2KernelLoader)"
proof -
  have "(''scheduler'', ''memory-manager'') \<in> dependsOn mutualCycle"
    by (rule dependsOnI[of "mutualCycle ! 1"]) (simp_all add: mutualCycle_def)
  moreover have "(''memory-manager'', ''scheduler'') \<in> dependsOn mutualCycle"
    by (rule dependsOnI[of "mutualCycle ! 0"]) (simp_all add: mutualCycle_def)
  ultimately have "(''scheduler'', ''scheduler'') \<in> (dependsOn mutualCycle)\<^sup>+"
    by (rule trancl_into_trancl2[OF _ r_into_trancl])
  then have "\<not> acyclic (dependsOn mutualCycle)"
    by (auto simp: acyclic_def)
  moreover have "loadEssentialModulesWith mutualCycle newStage2KernelLoader
     = (Some (EssentialModuleLoadFailed ''scheduler''), newStage2KernelLoader)"
    by (simp add: stage2_eval)
  ultimately show ?thesis by simp
qed

text \<open>
  Claim C9, as amended. \<open>loadModule\<close> looks the template up before it checks the
  dependencies. For every module definition with plain names whose name has a template,
  and every loader,
  if some name in the definition's dependencies is absent from the loaded modules, then
  \<open>loadModule\<close> fails with \<open>DependencyNotSatisfied\<close> naming an absent dependency and the
  module, the loader is left unmodified, and the loading loop stops at that module with
  \<open>this.modules\<close> (and the rest of the loader) unmodified.
\<close>

theorem C9_unsatisfied_dependency:
  assumes "plainDef moduleDef"
      and "lookup moduleTemplates (md_name moduleDef) \<noteq> None"
      and "\<exists>dep\<in>set (md_dependencies moduleDef). lookup (modules this) dep = None"
  shows "\<exists>dep\<in>set (md_dependencies moduleDef).
           lookup (modules this) dep = None \<and>
           loadModule moduleDef this =
             (Inl (DependencyNotSatisfied dep (md_name moduleDef)), this) \<and>
           loadEach (moduleDef # rest) this =
             (Some (EssentialModuleLoadFailed (md_name moduleDef)), this)"
proof -
  from find_first_missing[OF assms(3)] obtain dep where
    dep: "dep \<in> set (md_dependencies moduleDef)" "lookup (modules this) dep = None"
      "find (\<lambda>dep. lookup (modules this) dep = None) (md_dependencies moduleDef) = Some dep"
    by blast
  have lm: "loadModule moduleDef this =
             (Inl (DependencyNotSatisfied dep (md_name moduleDef)), this)"
    using assms(2) dep(3) by (auto simp: loadModule_def)
  then have "loadEach (moduleDef # rest) this =
             (Some (EssentialModuleLoadFailed (md_name moduleDef)), this)"
    by simp
  with lm dep show ?thesis by blast
qed

text \<open>\<open>process-manager\<close> on a loader with nothing loaded: \<open>scheduler\<close> is absent.\<close>

theorem C9_unsatisfied_dependency_witness:
  "plainDef (essentialModules ! 2) \<and>
   lookup moduleTemplates (md_name (essentialModules ! 2)) \<noteq> None \<and>
   lookup (modules newStage2KernelLoader) ''scheduler'' = None \<and>
   loadModule (essentialModules ! 2) newStage2KernelLoader
     = (Inl (DependencyNotSatisfied ''scheduler'' ''process-manager''), newStage2KernelLoader) \<and>
   loadEach [essentialModules ! 2] newStage2KernelLoader
     = (Some (EssentialModuleLoadFailed ''process-manager''), newStage2KernelLoader)"
proof -
  have p: "plainDef (essentialModules ! 2)"
    by (simp add: stage2_eval plain_eval)
  have t: "lookup moduleTemplates (md_name (essentialModules ! 2)) \<noteq> None"
    by (simp add: stage2_eval)
  have a: "lookup (modules newStage2KernelLoader) ''scheduler'' = None"
    by (simp add: stage2_eval)
  have "''scheduler'' \<in> set (md_dependencies (essentialModules ! 2))"
    by (simp add: stage2_eval)
  with a have e: "\<exists>dep\<in>set (md_dependencies (essentialModules ! 2)).
      lookup (modules newStage2KernelLoader) dep = None"
    by blast
  have lm: "loadModule (essentialModules ! 2) newStage2KernelLoader
     = (Inl (DependencyNotSatisfied ''scheduler'' ''process-manager''), newStage2KernelLoader)"
    by (simp add: stage2_eval)
  from C9_unsatisfied_dependency[OF p t e, of "[]"] lm
  have "loadEach [essentialModules ! 2] newStage2KernelLoader
     = (Some (EssentialModuleLoadFailed (md_name (essentialModules ! 2))), newStage2KernelLoader)"
    by blast
  moreover have "md_name (essentialModules ! 2) = ''process-manager''"
    by (simp add: stage2_eval)
  ultimately show ?thesis using p t a lm by simp
qed

text \<open>
  The claim as stated fails for a definition whose name has no template: its dependency
  \<open>scheduler\<close> is absent from the loaded modules, yet the error is \<open>TemplateNotFound\<close>.
\<close>

theorem C9_unsatisfied_dependency_counterexample:
  "''scheduler'' \<in> set (md_dependencies watchdogDef) \<and>
   lookup (modules newStage2KernelLoader) ''scheduler'' = None \<and>
   loadModule watchdogDef newStage2KernelLoader
     = (Inl (TemplateNotFound ''watchdog''), newStage2KernelLoader)"
  by (simp add: stage2_eval)


section \<open>Properties of the boot loader\<close>

lemma bootStatus_runStages:
  "bootStatus (fst (snd (runStages ld ss i this w))) = bootStatus this"
  by (induction ss arbitrary: i this w) (auto simp: Let_def split: sum.splits prod.splits)

lemma stages_runStages:
  "stages (fst (snd (runStages ld ss i this w))) = stages this"
  by (induction ss arbitrary: i this w) (auto simp: Let_def split: sum.splits prod.splits)

lemma runStages_failure_stage:
  "runStages ld ss i this w = (Some e, this1, w1) \<Longrightarrow> i < currentStage this1"
proof (induction ss arbitrary: i this w)
  case Nil
  then show ?case by simp
next
  case (Cons s ss)
  show ?case
  proof (cases "ld s")
    case (Inl e')
    with Cons.prems show ?thesis by auto
  next
    case (Inr stage)
    obtain r wa where st: "stage w = (r, wa)" by (cases "stage w")
    show ?thesis
    proof (cases r)
      case (Inl e')
      with Cons.prems Inr st show ?thesis by auto
    next
      case res: (Inr result)
      show ?thesis
      proof (cases "sr_success result")
        case False
        with Cons.prems Inr st res show ?thesis by auto
      next
        case True
        with Cons.prems Inr st res
        have "i + 1 < currentStage this1"
          by (auto simp: Let_def dest!: Cons.IH)
        then show ?thesis by simp
      qed
    qed
  qed
qed

text \<open>A loop that fails at its first stage has merged no result.\<close>

lemma runStages_first_failure:
  assumes "runStages ld ss i this w = (Some e, this1, w1)" and "currentStage this1 = i + 1"
  shows "kernelModules this1 = kernelModules this \<and> systemServices this1 = systemServices this"
proof (cases ss)
  case Nil
  with assms(1) show ?thesis by simp
next
  case (Cons s rest)
  show ?thesis
  proof (cases "ld s")
    case (Inl e')
    with assms(1) Cons show ?thesis by auto
  next
    case (Inr stage)
    obtain r wa where st: "stage w = (r, wa)" by (cases "stage w")
    show ?thesis
    proof (cases r)
      case (Inl e')
      with assms(1) Cons Inr st show ?thesis by auto
    next
      case res: (Inr result)
      show ?thesis
      proof (cases "sr_success result")
        case False
        with assms(1) Cons Inr st res show ?thesis by auto
      next
        case True
        with assms(1) Cons Inr st res
        have "i + 1 < currentStage this1"
          by (auto simp: Let_def dest!: runStages_failure_stage)
        with assms(2) show ?thesis by simp
      qed
    qed
  qed
qed

lemmas boot_eval = startWith_def start_def markStartTime_def loadStage_def newBootLoader_def
  threeStages_def threeStageLoader_def countingWorld_def plainWorld_def delay_def
  mountVirtualFilesystem_def initializeSystemServices_def orEmpty_def nth_opt_def
  getBootStatus_def rebootReset_def rebootWith_def reboot_def
  onceStages_def onceLoader_def onceWorld_def

text \<open>
  Claim C3, as amended. \<open>currentStage\<close> is 1-based: the loop assigns \<open>i + 1\<close> before it
  runs stage \<open>i\<close>. For a run over three stages where the first succeeds and the second
  returns \<open>success: false\<close>, whatever the third would do, the run ends in failure: the
  result names the second stage, the recorded \<open>currentStage\<close> is 2 (and
  \<open>stages[currentStage - 1]\<close> is the second stage), the error is pushed to
  \<open>bootStatus.errors\<close>, \<open>initialized\<close> stays as it was, and the environment is the one
  the second stage's action left: the third stage's action is never invoked.
\<close>

theorem C3_second_stage_failure:
  assumes "stages this = [s1, s2, s3]"
      and "ld s1 = Inr a1" and "a1 w = (Inr r1, w1)" and "sr_success r1"
      and "ld s2 = Inr a2" and "a2 w1 = (Inr r2, w2)" and "\<not> sr_success r2"
  shows "fst (startWith ld this w) = BootFailure (StageFailed s2 (sr_error r2)) 2 (Some s2) \<and>
         currentStage (fst (snd (startWith ld this w))) = 2 \<and>
         errors (bootStatus (fst (snd (startWith ld this w))))
           = errors (bootStatus this) @ [StageFailed s2 (sr_error r2)] \<and>
         initialized (bootStatus (fst (snd (startWith ld this w))))
           = initialized (bootStatus this) \<and>
         snd (snd (startWith ld this w)) = w2"
  using assms by (simp add: startWith_def markStartTime_def nth_opt_def Let_def)

text \<open>The counting pipeline: \<open>S1\<close> and \<open>S2\<close> were invoked once each, \<open>S3\<close> never.\<close>

theorem C3_second_stage_failure_witness:
  "stages threeStageLoader = [''S1'', ''S2'', ''S3''] \<and>
   fst (startWith threeStages threeStageLoader countingWorld)
     = BootFailure (StageFailed ''S2'' (Some ''disk'')) 2 (Some ''S2'') \<and>
   currentStage (fst (snd (startWith threeStages threeStageLoader countingWorld))) = 2 \<and>
   collab (snd (snd (startWith threeStages threeStageLoader countingWorld))) = [''S1'', ''S2''] \<and>
   count_list (collab (snd (snd (startWith threeStages threeStageLoader countingWorld)))) ''S3''
     = 0"
proof -
  let ?ok = "\<lparr>sr_success = True, sr_kernelModules = None, sr_services = None,
              sr_error = None\<rparr>"
  let ?bad = "\<lparr>sr_success = False, sr_kernelModules = None, sr_services = None,
               sr_error = Some ''disk''\<rparr>"
  let ?a1 = "\<lambda>w::(string list) world. (Inr ?ok :: error + stageResult,
                                           w\<lparr>collab := collab w @ [''S1'']\<rparr>)"
  let ?a2 = "\<lambda>w::(string list) world. (Inr ?bad :: error + stageResult,
                                           w\<lparr>collab := collab w @ [''S2'']\<rparr>)"
  let ?w1 = "countingWorld\<lparr>collab := [''S1'']\<rparr>"
  let ?w2 = "countingWorld\<lparr>collab := [''S1'', ''S2'']\<rparr>"
  have st: "stages threeStageLoader = [''S1'', ''S2'', ''S3'']"
    by (simp add: threeStageLoader_def)
  have l1: "threeStages ''S1'' = Inr ?a1"
    by (simp add: threeStages_def)
  have l2: "threeStages ''S2'' = Inr ?a2"
    by (simp add: threeStages_def)
  have r1: "?a1 countingWorld = (Inr ?ok, ?w1)"
    by (simp add: countingWorld_def)
  have r2: "?a2 ?w1 = (Inr ?bad, ?w2)"
    by (simp add: countingWorld_def)
  have s1: "sr_success ?ok" by simp
  have s2: "\<not> sr_success ?bad" by simp
  from C3_second_stage_failure[OF st l1 r1 s1 l2 r2 s2] st
  show ?thesis by simp
qed

text \<open>
  The claim as stated fails on the counting pipeline: the recorded stage is 2, not the
  0-based index 1 (the status query reports 2 as well).
\<close>

theorem C3_second_stage_failure_counterexample:
  "fst (startWith threeStages threeStageLoader countingWorld)
     = BootFailure (StageFailed ''S2'' (Some ''disk'')) 2 (Some ''S2'') \<and>
   rp_currentStage (getBootStatus (fst (snd (startWith threeStages threeStageLoader
                                              countingWorld)))) = 2 \<and>
   rp_currentStage (getBootStatus (fst (snd (startWith threeStages threeStageLoader
                                              countingWorld)))) \<noteq> 1"
  by (simp add: boot_eval)

text \<open>
  Claim C4, as amended. \<open>endTime\<close> is written in one place only, after the stage loop and
  the two initialisations have completed. For every run of \<open>start\<close>: a run that completes
  sets \<open>endTime\<close> to the clock at completion, so that \<open>endTime - startTime\<close> is the
  elapsed time it returns; a run that fails leaves \<open>endTime\<close> as it was before the run; and
  the stage loop never writes it. On a newly constructed loader \<open>endTime\<close> is unset
  before the run, so it is set afterwards exactly when the run has completed.
\<close>

theorem C4_endTime_on_completion_only:
  assumes "startWith ld this w = (res, this', w')"
  shows "endTime (bootStatus this')
           = (case res of BootSuccess t ks ss \<Rightarrow> Some (clock w')
                        | BootFailure e n s \<Rightarrow> endTime (bootStatus this)) \<and>
         startTime (bootStatus this') = Some (clock w) \<and>
         (case res of BootSuccess t ks ss \<Rightarrow> t = int (clock w') - int (clock w)
                    | BootFailure e n s \<Rightarrow> True) \<and>
         (\<forall>ss i this0 w0. endTime (bootStatus (fst (snd (runStages ld ss i this0 w0))))
                            = endTime (bootStatus this0)) \<and>
         endTime (bootStatus newBootLoader) = None"
proof -
  obtain e1 this1 w1 where r: "runStages ld (stages (markStartTime this w)) 0
                                 (markStartTime this w) w = (e1, this1, w1)"
    by (cases "runStages ld (stages (markStartTime this w)) 0 (markStartTime this w) w") auto
  have b: "bootStatus this1 = bootStatus (markStartTime this w)"
    using bootStatus_runStages[of ld "stages (markStartTime this w)" 0 "markStartTime this w" w] r
    by simp
  have main: "endTime (bootStatus this')
           = (case res of BootSuccess t ks ss \<Rightarrow> Some (clock w')
                        | BootFailure e n s \<Rightarrow> endTime (bootStatus this)) \<and>
         startTime (bootStatus this') = Some (clock w) \<and>
         (case res of BootSuccess t ks ss \<Rightarrow> t = int (clock w') - int (clock w)
                    | BootFailure e n s \<Rightarrow> True)"
    using assms r b
    by (cases e1) (auto simp: startWith_def Let_def markStartTime_def)
  have "endTime (bootStatus newBootLoader) = None"
    by (simp add: newBootLoader_def)
  with main show ?thesis by (simp add: bootStatus_runStages)
qed

text \<open>The boot of the source on a new loader, started at clock 1000: it completes at
  clock 1750 with an elapsed time of 750 ms.\<close>

theorem C4_endTime_witness:
  "fst (start newBootLoader plainWorld)
     = BootSuccess 750 [''scheduler'', ''memory-manager'', ''process-manager'']
         [''auth'', ''vfs'', ''network''] \<and>
   startTime (bootStatus (fst (snd (start newBootLoader plainWorld)))) = Some 1000 \<and>
   endTime (bootStatus (fst (snd (start newBootLoader plainWorld)))) = Some 1750"
proof -
  obtain res this' w' where r: "startWith loadStage newBootLoader plainWorld = (res, this', w')"
    by (cases "startWith loadStage newBootLoader plainWorld") auto
  have res: "fst (startWith loadStage newBootLoader plainWorld)
     = BootSuccess 750 [''scheduler'', ''memory-manager'', ''process-manager'']
         [''auth'', ''vfs'', ''network'']"
    by (simp add: boot_eval)
  have c: "clock (snd (snd (startWith loadStage newBootLoader plainWorld))) = 1750"
    by (simp add: boot_eval)
  have c0: "clock plainWorld = 1000"
    by (simp add: plainWorld_def)
  from C4_endTime_on_completion_only[OF r] r res c c0
  show ?thesis by (simp add: start_def)
qed

text \<open>
  The claim as stated fails on the counting pipeline run on a new loader: the run ends in
  failure, and \<open>endTime\<close> is still unset, while \<open>startTime\<close> is set.
\<close>

theorem C4_endTime_counterexample:
  "fst (startWith threeStages threeStageLoader countingWorld)
     = BootFailure (StageFailed ''S2'' (Some ''disk'')) 2 (Some ''S2'') \<and>
   endTime (bootStatus (fst (snd (startWith threeStages threeStageLoader countingWorld))))
     = None \<and>
   startTime (bootStatus (fst (snd (startWith threeStages threeStageLoader countingWorld))))
     = Some 1000"
  by (simp add: boot_eval)

text \<open>
  Claim C7, as amended. \<open>reboot()\<close> resets \<open>currentStage\<close>, \<open>initialized\<close>,
  \<open>kernelModules\<close> and \<open>systemServices\<close>, waits 500 ms, and runs \<open>start()\<close> again; the
  rest of \<open>bootStatus\<close> is not reset. So the stage loop of the re-run begins from a
  loader for which the status query reports no kernel module, no system service, stage 0
  and \<open>initialized\<close> false, together with the error and warning lists and the
  \<open>endTime\<close> of the loader's earlier runs. When \<open>reboot()\<close> returns, the modules, the
  services and the stage are those this loop has left (a re-run that fails at its first
  stage still reports no module and no service); the errors are the earlier errors
  followed by the error of the re-run, if it failed; the warnings are the earlier ones;
  \<open>endTime\<close> is the end of the re-run if it completed and the earlier \<open>endTime\<close> if it
  failed; \<open>startTime\<close> is the start of the re-run.
\<close>

theorem C7_reboot_resets_counts:
  assumes "rebootWith ld this w = (res, this', w')"
      and "runStages ld (stages this) 0 (markStartTime (rebootReset this) (delay 500 w))
             (delay 500 w) = (eo, this1, w1)"
  shows "getBootStatus (markStartTime (rebootReset this) (delay 500 w))
           = \<lparr>rp_initialized = False,
              rp_errors = errors (bootStatus this),
              rp_warnings = warnings (bootStatus this),
              rp_startTime = Some (clock w + 500),
              rp_endTime = endTime (bootStatus this),
              rp_currentStage = 0,
              rp_totalStages = length (stages this),
              rp_kernelModules = 0,
              rp_systemServices = 0\<rparr> \<and>
         kernelModules this' = kernelModules this1 \<and>
         systemServices this' = systemServices this1 \<and>
         currentStage this' = currentStage this1 \<and>
         errors (bootStatus this')
           = errors (bootStatus this) @ (case eo of None \<Rightarrow> [] | Some e \<Rightarrow> [e]) \<and>
         warnings (bootStatus this') = warnings (bootStatus this) \<and>
         endTime (bootStatus this')
           = (case eo of None \<Rightarrow> Some (clock w') | Some e \<Rightarrow> endTime (bootStatus this)) \<and>
         startTime (bootStatus this') = Some (clock w + 500) \<and>
         initialized (bootStatus this') = (eo = None) \<and>
         res = (case eo of
                  None \<Rightarrow> BootSuccess (int (clock w') - int (clock w + 500))
                            (keys (kernelModules this1)) (keys (systemServices this1))
                | Some e \<Rightarrow> BootFailure e (currentStage this1)
                            (if currentStage this1 = 0 then None
                             else nth_opt (stages this) (currentStage this1 - 1))) \<and>
         (eo \<noteq> None \<and> currentStage this1 = 1 \<longrightarrow>
            rp_kernelModules (getBootStatus this') = 0 \<and>
            rp_systemServices (getBootStatus this') = 0)"
proof -
  let ?start = "markStartTime (rebootReset this) (delay 500 w)"
  have st: "stages ?start = stages this"
    by (simp add: markStartTime_def rebootReset_def)
  have b: "bootStatus this1 = bootStatus ?start"
    using bootStatus_runStages[of ld "stages this" 0 ?start "delay 500 w"] assms(2) by simp
  have s1: "stages this1 = stages this"
    using stages_runStages[of ld "stages this" 0 ?start "delay 500 w"] assms(2) st by simp
  have entry: "getBootStatus ?start
           = \<lparr>rp_initialized = False,
              rp_errors = errors (bootStatus this),
              rp_warnings = warnings (bootStatus this),
              rp_startTime = Some (clock w + 500),
              rp_endTime = endTime (bootStatus this),
              rp_currentStage = 0,
              rp_totalStages = length (stages this),
              rp_kernelModules = 0,
              rp_systemServices = 0\<rparr>"
    by (simp add: getBootStatus_def markStartTime_def rebootReset_def delay_def)
  have run: "startWith ld (rebootReset this) (delay 500 w) = (res, this', w')"
    using assms(1) by (simp add: rebootWith_def)
  show ?thesis
  proof (cases eo)
    case None
    with run assms(2) st b s1 entry show ?thesis
      by (auto simp: startWith_def Let_def markStartTime_def rebootReset_def delay_def)
  next
    case (Some e)
    have fields: "kernelModules this' = kernelModules this1 \<and>
         systemServices this' = systemServices this1 \<and>
         currentStage this' = currentStage this1 \<and>
         errors (bootStatus this') = errors (bootStatus this) @ [e] \<and>
         warnings (bootStatus this') = warnings (bootStatus this) \<and>
         endTime (bootStatus this') = endTime (bootStatus this) \<and>
         startTime (bootStatus this') = Some (clock w + 500) \<and>
         initialized (bootStatus this') = False \<and>
         res = BootFailure e (currentStage this1)
                 (if currentStage this1 = 0 then None
                  else nth_opt (stages this) (currentStage this1 - 1))"
      using run assms(2) st b s1 Some
      by (auto simp: startWith_def Let_def markStartTime_def rebootReset_def delay_def)
    have first: "currentStage this1 = 1 \<longrightarrow>
            rp_kernelModules (getBootStatus this') = 0 \<and>
            rp_systemServices (getBootStatus this') = 0"
    proof
      assume c: "currentStage this1 = 1"
      from assms(2) Some have "runStages ld (stages this) 0 ?start (delay 500 w)
                                 = (Some e, this1, w1)" by simp
      from runStages_first_failure[OF this] c
      have "kernelModules this1 = [] \<and> systemServices this1 = []"
        by (simp add: markStartTime_def rebootReset_def)
      with fields show "rp_kernelModules (getBootStatus this') = 0 \<and>
            rp_systemServices (getBootStatus this') = 0"
        by (simp add: getBootStatus_def)
    qed
    from entry fields first Some show ?thesis by simp
  qed
qed

text \<open>
  The one-stage pipeline: the first boot completes with one kernel module; the reboot
  finds the medium gone and fails at its first stage, and the status query then reports
  no module and no service, and the one error of the re-run.
\<close>

theorem C7_reboot_witness:
  "fst (startWith onceStages onceLoader onceWorld) = BootSuccess 300 [''scheduler''] [] \<and>
   rp_kernelModules (getBootStatus (fst (snd (startWith onceStages onceLoader onceWorld)))) = 1 \<and>
   fst (rebootWith onceStages (fst (snd (startWith onceStages onceLoader onceWorld)))
          (snd (snd (startWith onceStages onceLoader onceWorld))))
     = BootFailure (StageFailed ''S1'' (Some ''no medium'')) 1 (Some ''S1'') \<and>
   rp_kernelModules (getBootStatus (fst (snd
       (rebootWith onceStages (fst (snd (startWith onceStages onceLoader onceWorld)))
          (snd (snd (startWith onceStages onceLoader onceWorld))))))) = 0 \<and>
   rp_systemServices (getBootStatus (fst (snd
       (rebootWith onceStages (fst (snd (startWith onceStages onceLoader onceWorld)))
          (snd (snd (startWith onceStages onceLoader onceWorld))))))) = 0 \<and>
   rp_errors (getBootStatus (fst (snd
       (rebootWith onceStages (fst (snd (startWith onceStages onceLoader onceWorld)))
          (snd (snd (startWith onceStages onceLoader onceWorld)))))))
     = [StageFailed ''S1'' (Some ''no medium'')]"
proof -
  let ?first = "startWith onceStages onceLoader onceWorld"
  let ?la = "fst (snd ?first)"
  let ?wb = "snd (snd ?first)"
  let ?second = "rebootWith onceStages ?la ?wb"
  let ?loop = "runStages onceStages (stages ?la) 0 (markStartTime (rebootReset ?la) (delay 500 ?wb))
                 (delay 500 ?wb)"
  have a1: "?second = (fst ?second, fst (snd ?second), snd (snd ?second))"
    by simp
  have a2: "?loop = (fst ?loop, fst (snd ?loop), snd (snd ?loop))"
    by simp
  have f: "fst ?first = BootSuccess 300 [''scheduler''] [] \<and>
           rp_kernelModules (getBootStatus ?la) = 1 \<and>
           errors (bootStatus ?la) = []"
    by (simp add: boot_eval)
  have l: "fst ?loop = Some (StageFailed ''S1'' (Some ''no medium'')) \<and>
           currentStage (fst (snd ?loop)) = 1"
    by (simp add: boot_eval)
  have n: "nth_opt (stages ?la) 0 = Some ''S1''"
    by (simp add: boot_eval)
  note t = C7_reboot_resets_counts[OF a1 a2]
  from t have e: "errors (bootStatus (fst (snd ?second)))
      = errors (bootStatus ?la) @ (case fst ?loop of None \<Rightarrow> [] | Some e \<Rightarrow> [e])"
    by blast
  from t have r: "fst ?second = (case fst ?loop of
                  None \<Rightarrow> BootSuccess (int (clock (snd (snd ?second))) - int (clock ?wb + 500))
                            (keys (kernelModules (fst (snd ?loop))))
                            (keys (systemServices (fst (snd ?loop))))
                | Some e \<Rightarrow> BootFailure e (currentStage (fst (snd ?loop)))
                            (if currentStage (fst (snd ?loop)) = 0 then None
                             else nth_opt (stages ?la) (currentStage (fst (snd ?loop)) - 1)))"
    by blast
  from t have c: "fst ?loop \<noteq> None \<and> currentStage (fst (snd ?loop)) = 1 \<longrightarrow>
            rp_kernelModules (getBootStatus (fst (snd ?second))) = 0 \<and>
            rp_systemServices (getBootStatus (fst (snd ?second))) = 0"
    by blast
  from c l have c': "rp_kernelModules (getBootStatus (fst (snd ?second))) = 0 \<and>
            rp_systemServices (getBootStatus (fst (snd ?second))) = 0"
    by simp
  from e l f have e': "rp_errors (getBootStatus (fst (snd ?second)))
      = [StageFailed ''S1'' (Some ''no medium'')]"
    by (simp add: getBootStatus_def)
  from r l n have r': "fst ?second
      = BootFailure (StageFailed ''S1'' (Some ''no medium'')) 1 (Some ''S1'')"
    by simp
  from f c' e' r' show ?thesis by simp
qed

text \<open>
  The claim as stated fails on the one-stage pipeline: the first boot completes, with
  \<open>endTime\<close> 1300; the reboot starts its re-run at 1800 and fails; the \<open>endTime\<close> of
  the completed run is carried through the re-run and is what the status query reports
  after it. A second reboot fails in the same way, and the error of the first one is
  still in the error list after it.
\<close>

theorem C7_reboot_counterexample:
  "fst (startWith onceStages onceLoader onceWorld) = BootSuccess 300 [''scheduler''] [] \<and>
   endTime (bootStatus (fst (snd (startWith onceStages onceLoader onceWorld)))) = Some 1300 \<and>
   fst (rebootWith onceStages (fst (snd (startWith onceStages onceLoader onceWorld)))
          (snd (snd (startWith onceStages onceLoader onceWorld))))
     = BootFailure (StageFailed ''S1'' (Some ''no medium'')) 1 (Some ''S1'') \<and>
   rp_startTime (getBootStatus (fst (snd
       (rebootWith onceStages (fst (snd (startWith onceStages onceLoader onceWorld)))
          (snd (snd (startWith onceStages onceLoader onceWorld))))))) = Some 1800 \<and>
   rp_endTime (getBootStatus (fst (snd
       (rebootWith onceStages (fst (snd (startWith onceStages onceLoader onceWorld)))
          (snd (snd (startWith onceStages onceLoader onceWorld))))))) = Some 1300 \<and>
   rp_errors (getBootStatus (fst (snd
       (rebootWith onceStages
          (fst (snd (rebootWith onceStages
                       (fst (snd (startWith onceStages onceLoader onceWorld)))
                       (snd (snd (startWith onceStages onceLoader onceWorld))))))
          (snd (snd (rebootWith onceStages
                       (fst (snd (startWith onceStages onceLoader onceWorld)))
                       (snd (snd (startWith onceStages onceLoader onceWorld))))))))))
     = [StageFailed ''S1'' (Some ''no medium''), StageFailed ''S1'' (Some ''no medium'')]"
  by (simp add: boot_eval)

section \<open>Properties of the init system\<close>

text \<open>One call of \<open>startService\<close>, exactly: a call that throws returns the init object
  as it was; a call that returns has run the template's \<open>start\<close>, keeps its result as
  \<open>process\<close>, and has pushed the daemon entry of a daemon.\<close>

lemma startService_error:
  "startError templates n k w = Some e \<Longrightarrow>
     startServiceWith templates k n this w = (Inl e, this, serviceWorld templates n k w)"
  by (auto simp: startError_def startServiceWith_def serviceWorld_def Let_def
           split: option.splits if_splits sum.splits prod.splits)

lemma startService_no_error:
  assumes "startServiceWith templates k n this w = (Inr si, this1, w1)"
  shows "startError templates n k w = None"
proof (cases "startError templates n k w")
  case None
  then show ?thesis .
next
  case (Some e)
  from startService_error[OF this, of this] assms show ?thesis by simp
qed

lemma startService_failure:
  "startServiceWith templates k n this w = (Inl e, this1, w1) \<Longrightarrow> this1 = this"
  by (auto simp: startServiceWith_def Let_def split: option.splits if_splits sum.splits prod.splits)

lemma startService_world:
  "snd (snd (startServiceWith templates k n this w)) = serviceWorld templates n k w"
  by (auto simp: startServiceWith_def serviceWorld_def Let_def
           split: option.splits if_splits sum.splits prod.splits)

lemma startService_started:
  assumes "lookup templates k = Some tk" and "n \<in> set (st_runlevels tk)"
      and "st_start tk = Some a" and "a w = (Inr r, w1)"
      and "\<not> (st_type tk = ''daemon'' \<and> r = JNull)"
  shows "startServiceWith templates k n this w =
          (Inr \<lparr>si_name = st_name tk, si_description = st_description tk,
                si_type = st_type tk, si_runlevels = st_runlevels tk,
                si_startedAt = clock w, si_runlevel = n,
                si_process = Some r, si_status = Some ''running''\<rparr>,
           (if st_type tk = ''daemon''
            then this\<lparr>daemons := daemons this @
                   [\<lparr>dm_name = k, dm_pid = prop_of r ''pid'', dm_since = clock w\<rparr>]\<rparr>
            else this),
           w1)"
  using assms by (auto simp: startServiceWith_def Let_def)

lemma startService_frame:
  assumes "startServiceWith templates k n this w = (Inr si, this1, w1)"
  shows "services this1 = services this \<and>
         (\<exists>ds. daemons this1 = daemons this @ ds \<and> dm_name ` set ds \<subseteq> {k})"
  using assms
  by (auto simp: startServiceWith_def Let_def
           split: option.splits if_splits sum.splits prod.splits)

text \<open>The loop of \<open>enterRunlevel\<close>: it runs name after name, it threads the environment
  through every call, it only appends to the console and to the daemon list, under the
  names it was given, and it leaves the entries of all other names alone.\<close>

lemma startEach_append:
  "startEach templates (xs @ ys) n this w out =
     (case startEach templates xs n this w out of
        (this1, w1, out1) \<Rightarrow> startEach templates ys n this1 w1 out1)"
proof (induction xs arbitrary: this w out)
  case Nil
  then show ?case by simp
next
  case (Cons k xs)
  obtain r this1 w1 where st: "startServiceWith templates k n this (delay 20 w) = (r, this1, w1)"
    by (cases "startServiceWith templates k n this (delay 20 w)") auto
  then show ?case using Cons.IH by (cases r) simp_all
qed

lemma worldAfter_Cons:
  "worldAfter templates n (k # ks) w
     = worldAfter templates n ks (serviceWorld templates n k (delay 20 w))"
  by (simp add: worldAfter_def)

lemma startEach_world:
  "fst (snd (startEach templates names n this w out)) = worldAfter templates n names w"
proof (induction names arbitrary: this w out)
  case Nil
  then show ?case by (simp add: worldAfter_def)
next
  case (Cons k names)
  obtain r this1 w1 where st: "startServiceWith templates k n this (delay 20 w) = (r, this1, w1)"
    by (cases "startServiceWith templates k n this (delay 20 w)") auto
  have "w1 = serviceWorld templates n k (delay 20 w)"
    using startService_world[of templates k n this "delay 20 w"] st by simp
  then show ?case using st Cons.IH by (cases r) (simp_all add: worldAfter_Cons)
qed

lemma startEach_console:
  "\<exists>ext. snd (snd (startEach templates names n this w out)) = out @ ext \<and>
         fst ` set ext \<subseteq> set names"
proof (induction names arbitrary: this w out)
  case Nil
  then show ?case by simp
next
  case (Cons k names)
  obtain r this1 w1 where st: "startServiceWith templates k n this (delay 20 w) = (r, this1, w1)"
    by (cases "startServiceWith templates k n this (delay 20 w)") auto
  show ?case
  proof (cases r)
    case (Inl e)
    from Cons.IH[of this1 w1 "out @ [(k, e)]"] obtain ext where
      ext: "snd (snd (startEach templates names n this1 w1 (out @ [(k, e)])))
              = (out @ [(k, e)]) @ ext" "fst ` set ext \<subseteq> set names"
      by blast
    have "snd (snd (startEach templates (k # names) n this w out)) = out @ ((k, e) # ext)"
      using st Inl ext(1) by simp
    moreover have "fst ` set ((k, e) # ext) \<subseteq> set (k # names)"
      using ext(2) by auto
    ultimately show ?thesis by blast
  next
    case (Inr si)
    let ?this2 = "this1\<lparr>services := assign (services this1) k si\<rparr>"
    from Cons.IH[of ?this2 w1 out] obtain ext where
      ext: "snd (snd (startEach templates names n ?this2 w1 out)) = out @ ext"
           "fst ` set ext \<subseteq> set names"
      by blast
    have "snd (snd (startEach templates (k # names) n this w out)) = out @ ext"
      using st Inr ext(1) by simp
    moreover have "fst ` set ext \<subseteq> set (k # names)"
      using ext(2) by auto
    ultimately show ?thesis by blast
  qed
qed

lemma startEach_daemons:
  "\<exists>ds. daemons (fst (startEach templates names n this w out)) = daemons this @ ds \<and>
        dm_name ` set ds \<subseteq> set names"
proof (induction names arbitrary: this w out)
  case Nil
  then show ?case by simp
next
  case (Cons k names)
  obtain r this1 w1 where st: "startServiceWith templates k n this (delay 20 w) = (r, this1, w1)"
    by (cases "startServiceWith templates k n this (delay 20 w)") auto
  show ?case
  proof (cases r)
    case (Inl e)
    with st have "this1 = this" by (auto dest: startService_failure)
    from Cons.IH[of this w1 "out @ [(k, e)]"] obtain ds where
      "daemons (fst (startEach templates names n this w1 (out @ [(k, e)]))) = daemons this @ ds"
      "dm_name ` set ds \<subseteq> set names"
      by blast
    then show ?thesis using st Inl \<open>this1 = this\<close> by auto
  next
    case (Inr si)
    let ?this2 = "this1\<lparr>services := assign (services this1) k si\<rparr>"
    from startService_frame[OF st[unfolded Inr]] obtain d1 where
      d1: "daemons this1 = daemons this @ d1" "dm_name ` set d1 \<subseteq> {k}"
      by blast
    from Cons.IH[of ?this2 w1 out] obtain ds where
      ds: "daemons (fst (startEach templates names n ?this2 w1 out)) = daemons ?this2 @ ds"
          "dm_name ` set ds \<subseteq> set names"
      by blast
    have "daemons (fst (startEach templates (k # names) n this w out))
            = daemons this @ (d1 @ ds)"
      using st Inr d1(1) ds(1) by simp
    moreover have "dm_name ` set (d1 @ ds) \<subseteq> set (k # names)"
      using d1(2) ds(2) by auto
    ultimately show ?thesis by blast
  qed
qed

lemma startEach_services_other:
  "k \<notin> set names \<Longrightarrow>
     lookup (services (fst (startEach templates names n this w out))) k
       = lookup (services this) k"
proof (induction names arbitrary: this w out)
  case Nil
  then show ?case by simp
next
  case (Cons k' names)
  obtain r this1 w1 where st: "startServiceWith templates k' n this (delay 20 w) = (r, this1, w1)"
    by (cases "startServiceWith templates k' n this (delay 20 w)") auto
  from Cons.prems have ne: "k \<noteq> k'" and rest: "k \<notin> set names" by auto
  show ?case
  proof (cases r)
    case (Inl e)
    with st have "this1 = this" by (auto dest: startService_failure)
    then show ?thesis using st Inl Cons.IH[OF rest] by simp
  next
    case (Inr si)
    let ?this2 = "this1\<lparr>services := assign (services this1) k' si\<rparr>"
    from startService_frame[OF st[unfolded Inr]] have "services this1 = services this"
      by blast
    then have "lookup (services ?this2) k = lookup (services this) k"
      using ne by (simp add: lookup_assign_other)
    then show ?thesis using st Inr Cons.IH[OF rest, of ?this2 w1 out] by simp
  qed
qed

text \<open>A name whose start fails whatever the environment keeps its entry of
  \<open>this.services\<close> and its entries of \<open>this.daemons\<close> through the whole loop.\<close>

lemma startEach_failing_name:
  assumes "\<forall>w. startError templates n s w \<noteq> None"
  shows "lookup (services (fst (startEach templates names n this w out))) s
           = lookup (services this) s \<and>
         filter (\<lambda>d. dm_name d = s) (daemons (fst (startEach templates names n this w out)))
           = filter (\<lambda>d. dm_name d = s) (daemons this)"
proof (induction names arbitrary: this w out)
  case Nil
  then show ?case by simp
next
  case (Cons k names)
  obtain r this1 w1 where st: "startServiceWith templates k n this (delay 20 w) = (r, this1, w1)"
    by (cases "startServiceWith templates k n this (delay 20 w)") auto
  show ?case
  proof (cases r)
    case (Inl e)
    with st have "this1 = this" by (auto dest: startService_failure)
    with st Inl Cons.IH show ?thesis by simp
  next
    case (Inr si)
    have "k \<noteq> s"
    proof
      assume "k = s"
      with st Inr have "startError templates n s (delay 20 w) = None"
        by (auto dest: startService_no_error)
      with assms show False by blast
    qed
    from startService_frame[OF st[unfolded Inr]] obtain d1 where
      sv: "services this1 = services this"
      and d1: "daemons this1 = daemons this @ d1" "dm_name ` set d1 \<subseteq> {k}"
      by blast
    have "filter (\<lambda>d. dm_name d = s) d1 = []"
      using d1(2) \<open>k \<noteq> s\<close> by (auto simp: filter_empty_conv)
    with d1(1) have dm: "filter (\<lambda>d. dm_name d = s) (daemons this1)
                 = filter (\<lambda>d. dm_name d = s) (daemons this)"
      by simp
    let ?this2 = "this1\<lparr>services := assign (services this1) k si\<rparr>"
    have "lookup (services ?this2) s = lookup (services this) s"
      using sv \<open>k \<noteq> s\<close> by (simp add: lookup_assign_other)
    moreover have "filter (\<lambda>d. dm_name d = s) (daemons ?this2)
                     = filter (\<lambda>d. dm_name d = s) (daemons this)"
      using dm by simp
    ultimately show ?thesis
      using st Inr Cons.IH[of ?this2 w1 out] by simp
  qed
qed

text \<open>The turn of one name \<open>k\<close> between the names \<open>pre\<close> and the names \<open>post\<close>.\<close>

lemma startEach_turn_error:
  assumes "startEach templates pre n this w out = (this1, w1, out1)"
      and "startError templates n k (delay 20 w1) = Some e"
  shows "startEach templates (pre @ k # post) n this w out
           = startEach templates post n this1 (serviceWorld templates n k (delay 20 w1))
               (out1 @ [(k, e)])"
  using assms by (simp add: startEach_append startService_error)

lemma filter_name_outside:
  "fst ` set ext \<subseteq> A \<Longrightarrow> k \<notin> A \<Longrightarrow> filter (\<lambda>p. fst p = k) ext = []"
  by (auto simp: filter_empty_conv)

lemma filter_daemons_outside:
  "dm_name ` set ds \<subseteq> A \<Longrightarrow> k \<notin> A \<Longrightarrow> filter (\<lambda>d. dm_name d = k) ds = []"
  by (auto simp: filter_empty_conv)

text \<open>A service that starts at its turn is stored as started, with the result of its
  \<open>start\<close> action run in the environment of its turn, and nothing is printed for it.\<close>

lemma startEach_turn_started:
  assumes names: "names = pre @ k # post" and last: "k \<notin> set post"
      and tk: "lookup templates k = Some tk" "n \<in> set (st_runlevels tk)" "st_start tk = Some a"
      and run: "a (delay 20 (worldAfter templates n pre w)) = (Inr r, wk)"
      and ok: "\<not> (st_type tk = ''daemon'' \<and> r = JNull)"
  shows "lookup (services (fst (startEach templates names n this w out))) k
           = Some \<lparr>si_name = st_name tk, si_description = st_description tk,
                   si_type = st_type tk, si_runlevels = st_runlevels tk,
                   si_startedAt = clock (worldAfter templates n pre w) + 20, si_runlevel = n,
                   si_process = Some r, si_status = Some ''running''\<rparr> \<and>
         (st_type tk = ''daemon'' \<longrightarrow>
            \<lparr>dm_name = k, dm_pid = prop_of r ''pid'',
             dm_since = clock (worldAfter templates n pre w) + 20\<rparr>
              \<in> set (daemons (fst (startEach templates names n this w out)))) \<and>
         (k \<notin> set pre \<longrightarrow>
            filter (\<lambda>p. fst p = k) (snd (snd (startEach templates names n this w out)))
              = filter (\<lambda>p. fst p = k) out)"
proof -
  obtain thisA wA outA where pre: "startEach templates pre n this w out = (thisA, wA, outA)"
    by (cases "startEach templates pre n this w out") auto
  have wA: "wA = worldAfter templates n pre w"
    using startEach_world[of templates pre n this w out] pre by simp
  let ?si = "\<lparr>si_name = st_name tk, si_description = st_description tk,
                   si_type = st_type tk, si_runlevels = st_runlevels tk,
                   si_startedAt = clock (delay 20 wA), si_runlevel = n,
                   si_process = Some r, si_status = Some ''running''\<rparr>"
  let ?d = "\<lparr>dm_name = k, dm_pid = prop_of r ''pid'', dm_since = clock (delay 20 wA)\<rparr>"
  let ?thisB = "if st_type tk = ''daemon''
                then thisA\<lparr>daemons := daemons thisA @ [?d]\<rparr> else thisA"
  let ?thisC = "?thisB\<lparr>services := assign (services ?thisB) k ?si\<rparr>"
  have call: "startServiceWith templates k n thisA (delay 20 wA) = (Inr ?si, ?thisB, wk)"
    using startService_started[OF tk _ ok, of "delay 20 wA" wk thisA] run wA by simp
  have whole: "startEach templates names n this w out = startEach templates post n ?thisC wk outA"
    using names pre call by (simp add: startEach_append)
  have c: "clock (delay 20 wA) = clock (worldAfter templates n pre w) + 20"
    using wA by (simp add: delay_def)
  have sv: "lookup (services (fst (startEach templates names n this w out))) k = Some ?si"
    unfolding whole using startEach_services_other[OF last, of templates n ?thisC wk outA]
    by (simp add: lookup_assign_same)
  have dm: "st_type tk = ''daemon'' \<longrightarrow>
              ?d \<in> set (daemons (fst (startEach templates names n this w out)))"
  proof
    assume "st_type tk = ''daemon''"
    then have "?d \<in> set (daemons ?thisC)" by simp
    moreover obtain ds where
      "daemons (fst (startEach templates post n ?thisC wk outA)) = daemons ?thisC @ ds"
      using startEach_daemons[of templates post n ?thisC wk outA] by blast
    ultimately show "?d \<in> set (daemons (fst (startEach templates names n this w out)))"
      unfolding whole by simp
  qed
  have lg: "k \<notin> set pre \<longrightarrow>
            filter (\<lambda>p. fst p = k) (snd (snd (startEach templates names n this w out)))
              = filter (\<lambda>p. fst p = k) out"
  proof
    assume first: "k \<notin> set pre"
    from startEach_console[of templates pre n this w out] pre obtain e1 where
      e1: "outA = out @ e1" "fst ` set e1 \<subseteq> set pre" by auto
    from startEach_console[of templates post n ?thisC wk outA] obtain e2 where
      e2: "snd (snd (startEach templates post n ?thisC wk outA)) = outA @ e2"
          "fst ` set e2 \<subseteq> set post" by blast
    have "filter (\<lambda>p. fst p = k) e1 = []"
      using e1(2) first by (rule filter_name_outside)
    moreover have "filter (\<lambda>p. fst p = k) e2 = []"
      using e2(2) last by (rule filter_name_outside)
    ultimately show "filter (\<lambda>p. fst p = k)
                       (snd (snd (startEach templates names n this w out)))
                     = filter (\<lambda>p. fst p = k) out"
      unfolding whole using e1(1) e2(1) by simp
  qed
  from sv dm lg c show ?thesis by simp
qed

text \<open>What the loop has done when the start of \<open>s\<close> fails at its turn.\<close>

lemma startEach_turn_failed:
  assumes names: "names = pre @ s # post"
      and pre: "startEach templates pre n this w out = (this1, w1, out1)"
      and err: "startError templates n s (delay 20 w1) = Some e"
  shows "startEach templates names n this w out
           = startEach templates post n this1 (serviceWorld templates n s (delay 20 w1))
               (out1 @ [(s, e)]) \<and>
         (\<exists>extPre extPost.
             snd (snd (startEach templates names n this w out))
               = out @ extPre @ [(s, e)] @ extPost \<and>
             fst ` set extPre \<subseteq> set pre \<and> fst ` set extPost \<subseteq> set post) \<and>
         (s \<notin> set pre \<and> s \<notin> set post \<longrightarrow>
            lookup (services (fst (startEach templates names n this w out))) s
              = lookup (services this) s \<and>
            filter (\<lambda>d. dm_name d = s) (daemons (fst (startEach templates names n this w out)))
              = filter (\<lambda>d. dm_name d = s) (daemons this))"
proof -
  let ?wB = "serviceWorld templates n s (delay 20 w1)"
  let ?rest = "startEach templates post n this1 ?wB (out1 @ [(s, e)])"
  have whole: "startEach templates names n this w out = ?rest"
    unfolding names using pre err by (rule startEach_turn_error)
  from startEach_console[of templates pre n this w out] pre obtain e1 where
    e1: "out1 = out @ e1" "fst ` set e1 \<subseteq> set pre" by auto
  from startEach_console[of templates post n this1 ?wB "out1 @ [(s, e)]"] obtain e2 where
    e2: "snd (snd ?rest) = (out1 @ [(s, e)]) @ e2" "fst ` set e2 \<subseteq> set post" by blast
  have log: "\<exists>extPre extPost.
             snd (snd (startEach templates names n this w out))
               = out @ extPre @ [(s, e)] @ extPost \<and>
             fst ` set extPre \<subseteq> set pre \<and> fst ` set extPost \<subseteq> set post"
    unfolding whole using e1 e2 by auto
  have keep: "s \<notin> set pre \<and> s \<notin> set post \<longrightarrow>
            lookup (services (fst (startEach templates names n this w out))) s
              = lookup (services this) s \<and>
            filter (\<lambda>d. dm_name d = s) (daemons (fst (startEach templates names n this w out)))
              = filter (\<lambda>d. dm_name d = s) (daemons this)"
  proof
    assume out: "s \<notin> set pre \<and> s \<notin> set post"
    have s1: "lookup (services this1) s = lookup (services this) s"
      using startEach_services_other[of s pre templates n this w out] pre out by simp
    have s2: "lookup (services (fst ?rest)) s = lookup (services this1) s"
      using startEach_services_other[of s post] out by simp
    from startEach_daemons[of templates pre n this w out] pre obtain d1 where
      d1: "daemons this1 = daemons this @ d1" "dm_name ` set d1 \<subseteq> set pre" by auto
    from startEach_daemons[of templates post n this1 ?wB "out1 @ [(s, e)]"] obtain d2 where
      d2: "daemons (fst ?rest) = daemons this1 @ d2" "dm_name ` set d2 \<subseteq> set post" by blast
    have "filter (\<lambda>d. dm_name d = s) d1 = []"
      using d1(2) out by (auto intro: filter_daemons_outside)
    moreover have "filter (\<lambda>d. dm_name d = s) d2 = []"
      using d2(2) out by (auto intro: filter_daemons_outside)
    ultimately have "filter (\<lambda>d. dm_name d = s) (daemons (fst ?rest))
                       = filter (\<lambda>d. dm_name d = s) (daemons this)"
      using d1(1) d2(1) by simp
    with s1 s2 show "lookup (services (fst (startEach templates names n this w out))) s
              = lookup (services this) s \<and>
            filter (\<lambda>d. dm_name d = s) (daemons (fst (startEach templates names n this w out)))
              = filter (\<lambda>d. dm_name d = s) (daemons this)"
      unfolding whole by simp
  qed
  from whole log keep show ?thesis by blast
qed

lemma startService_thrown:
  "startServiceWith templates k n this w = (Inl e, this1, w1) \<Longrightarrow>
     startError templates n k w = Some e"
  by (auto simp: startError_def startServiceWith_def Let_def
           split: option.splits if_splits sum.splits prod.splits)

text \<open>Under a name requested once, the loop prints the error of that name's own start,
  if it fails at its turn, and nothing else.\<close>

lemma startEach_turn_log:
  assumes names: "names = pre @ k # post" and once: "k \<notin> set pre" "k \<notin> set post"
  shows "filter (\<lambda>p. fst p = k) (snd (snd (startEach templates names n this w out)))
           = filter (\<lambda>p. fst p = k) out @
             (case startError templates n k (delay 20 (worldAfter templates n pre w)) of
                None \<Rightarrow> [] | Some e \<Rightarrow> [(k, e)])"
proof -
  obtain thisA wA outA where pre: "startEach templates pre n this w out = (thisA, wA, outA)"
    by (cases "startEach templates pre n this w out") auto
  have wA: "wA = worldAfter templates n pre w"
    using startEach_world[of templates pre n this w out] pre by simp
  from startEach_console[of templates pre n this w out] pre obtain e1 where
    e1: "outA = out @ e1" "fst ` set e1 \<subseteq> set pre" by auto
  have f1: "filter (\<lambda>p. fst p = k) e1 = []"
    using e1(2) once(1) by (rule filter_name_outside)
  obtain r thisB wB where
    call: "startServiceWith templates k n thisA (delay 20 wA) = (r, thisB, wB)"
    by (cases "startServiceWith templates k n thisA (delay 20 wA)") auto
  show ?thesis
  proof (cases r)
    case (Inl e)
    with call have err: "startError templates n k (delay 20 wA) = Some e"
      by (auto dest: startService_thrown)
    have whole: "startEach templates names n this w out
                   = startEach templates post n thisB wB (outA @ [(k, e)])"
      using names pre call Inl by (simp add: startEach_append)
    from startEach_console[of templates post n thisB wB "outA @ [(k, e)]"] obtain e2 where
      e2: "snd (snd (startEach templates post n thisB wB (outA @ [(k, e)])))
             = (outA @ [(k, e)]) @ e2" "fst ` set e2 \<subseteq> set post" by blast
    have "filter (\<lambda>p. fst p = k) e2 = []"
      using e2(2) once(2) by (rule filter_name_outside)
    then show ?thesis
      unfolding whole using e1(1) e2(1) f1 err wA by simp
  next
    case (Inr si)
    with call have err: "startError templates n k (delay 20 wA) = None"
      by (auto dest: startService_no_error)
    let ?thisC = "thisB\<lparr>services := assign (services thisB) k si\<rparr>"
    have whole: "startEach templates names n this w out
                   = startEach templates post n ?thisC wB outA"
      using names pre call Inr by (simp add: startEach_append)
    from startEach_console[of templates post n ?thisC wB outA] obtain e2 where
      e2: "snd (snd (startEach templates post n ?thisC wB outA)) = outA @ e2"
          "fst ` set e2 \<subseteq> set post" by blast
    have "filter (\<lambda>p. fst p = k) e2 = []"
      using e2(2) once(2) by (rule filter_name_outside)
    then show ?thesis
      unfolding whole using e1(1) e2(1) f1 err wA by simp
  qed
qed

lemma enterRunlevel_loop:
  assumes "serviceTable this = Some table" and "map_of table n = Some names"
      and "names \<noteq> []"
  shows "enterRunlevelWith templates n this w out
           = (None, startEach templates names n this w out)"
  using assms by (simp add: enterRunlevelWith_def)

lemmas init_eval = enterRunlevelWith_def startServiceWith_def exampleTemplates_def
  exampleInit_def failingInit_def newStage3Init_def plainWorld_def delay_def Let_def
  worldAfter_def serviceWorld_def startError_def

text \<open>
  Claim C8. \<open>enterRunlevel\<close> takes the names to start from \<open>this.serviceTable\<close>, and
  the error of a failed start is recorded by printing it with \<open>console.error\<close> beside
  the service's name. Let the table list the plain names \<open>names\<close> for runlevel \<open>n\<close>,
  and let \<open>s\<close>, requested after the names \<open>pre\<close> and before the names \<open>post\<close>, have a
  template that does not list \<open>n\<close>. Then \<open>s\<close> fails alone. \<open>enterRunlevel\<close> itself
  raises nothing. The failure of \<open>s\<close> leaves one trace: its error
  \<open>ServiceNotAvailable s n\<close> is printed once, under the name \<open>s\<close>, between what was
  printed for the names before it and what is printed for the names after it; apart from
  that and the delay of its turn, the rest of the batch runs from the init object and the
  environment the earlier services left. No instance and no daemon entry is stored for
  \<open>s\<close>. The environment at the end is the one obtained by running, in the order given,
  the \<open>start\<close> action of every requested service that passes the two checks. Every other
  requested service \<open>k\<close> whose template lists \<open>n\<close> and whose \<open>start\<close>, run at its turn,
  returns a result \<open>r\<close>, is started: its instance is stored with \<open>r\<close> as \<open>process\<close>,
  status \<open>running\<close>, runlevel \<open>n\<close> and the time of its turn; a daemon has its entry in
  \<open>this.daemons\<close>; and nothing is printed under its name. Under any name requested
  once, what is printed is the error of that name's own start, if it fails at its turn,
  and nothing else.
\<close>

theorem C8_runlevel_mismatch_isolated:
  assumes tbl: "serviceTable this = Some table" and nm: "map_of table n = Some names"
      and plain: "list_all plainKey names"
      and names: "names = pre @ s # post"
      and t: "lookup templates s = Some t" and mis: "n \<notin> set (st_runlevels t)"
      and run: "enterRunlevelWith templates n this w out = (res, this', w', out')"
      and pre: "startEach templates pre n this w out = (this1, w1, out1)"
  shows "res = None \<and>
         (this', w', out')
           = startEach templates post n this1 (delay 20 w1)
               (out1 @ [(s, ServiceNotAvailable s n)]) \<and>
         w' = worldAfter templates n names w \<and>
         (\<exists>extPre extPost.
             out' = out @ extPre @ [(s, ServiceNotAvailable s n)] @ extPost \<and>
             fst ` set extPre \<subseteq> set pre \<and> fst ` set extPost \<subseteq> set post) \<and>
         lookup (services this') s = lookup (services this) s \<and>
         filter (\<lambda>d. dm_name d = s) (daemons this') = filter (\<lambda>d. dm_name d = s) (daemons this) \<and>
         (\<forall>pre' k post' tk a r wk.
             names = pre' @ k # post' \<and> k \<notin> set post' \<and>
             lookup templates k = Some tk \<and> n \<in> set (st_runlevels tk) \<and>
             st_start tk = Some a \<and>
             a (delay 20 (worldAfter templates n pre' w)) = (Inr r, wk) \<and>
             \<not> (st_type tk = ''daemon'' \<and> r = JNull) \<longrightarrow>
               lookup (services this') k
                 = Some \<lparr>si_name = st_name tk, si_description = st_description tk,
                         si_type = st_type tk, si_runlevels = st_runlevels tk,
                         si_startedAt = clock (worldAfter templates n pre' w) + 20,
                         si_runlevel = n,
                         si_process = Some r, si_status = Some ''running''\<rparr> \<and>
               (st_type tk = ''daemon'' \<longrightarrow>
                  \<lparr>dm_name = k, dm_pid = prop_of r ''pid'',
                   dm_since = clock (worldAfter templates n pre' w) + 20\<rparr>
                    \<in> set (daemons this')) \<and>
               (k \<notin> set pre' \<longrightarrow>
                  filter (\<lambda>p. fst p = k) out' = filter (\<lambda>p. fst p = k) out)) \<and>
         (\<forall>pre' k post'.
             names = pre' @ k # post' \<and> k \<notin> set pre' \<and> k \<notin> set post' \<longrightarrow>
               filter (\<lambda>p. fst p = k) out'
                 = filter (\<lambda>p. fst p = k) out @
                   (case startError templates n k (delay 20 (worldAfter templates n pre' w)) of
                      None \<Rightarrow> [] | Some e \<Rightarrow> [(k, e)]))"
proof -
  let ?loop = "startEach templates names n this w out"
  have ne: "names \<noteq> []" using names by simp
  have "(res, this', w', out') = (None, ?loop)"
    using enterRunlevel_loop[OF tbl nm ne, of templates w out] run by simp
  then have res: "res = None" and this': "this' = fst ?loop"
    and w': "w' = fst (snd ?loop)" and out': "out' = snd (snd ?loop)"
    and all: "(this', w', out') = ?loop"
    by (simp_all add: prod_eq_iff)
  have err: "startError templates n s (delay 20 w1) = Some (ServiceNotAvailable s n)"
    using t mis by (simp add: startError_def)
  have sw: "serviceWorld templates n s (delay 20 w1) = delay 20 w1"
    using t mis by (simp add: serviceWorld_def)
  have always: "\<forall>w. startError templates n s w \<noteq> None"
    using t mis by (simp add: startError_def)
  note turn = startEach_turn_failed[OF names pre err]
  have iso: "(this', w', out')
           = startEach templates post n this1 (delay 20 w1)
               (out1 @ [(s, ServiceNotAvailable s n)])"
    using turn all sw by simp
  have world: "w' = worldAfter templates n names w"
    unfolding w' by (rule startEach_world)
  have log: "\<exists>extPre extPost.
             out' = out @ extPre @ [(s, ServiceNotAvailable s n)] @ extPost \<and>
             fst ` set extPre \<subseteq> set pre \<and> fst ` set extPost \<subseteq> set post"
    unfolding out' using turn by blast
  have keep: "lookup (services this') s = lookup (services this) s \<and>
         filter (\<lambda>d. dm_name d = s) (daemons this') = filter (\<lambda>d. dm_name d = s) (daemons this)"
    unfolding this' by (rule startEach_failing_name[OF always])
  have others: "\<forall>pre' k post' tk a r wk.
             names = pre' @ k # post' \<and> k \<notin> set post' \<and>
             lookup templates k = Some tk \<and> n \<in> set (st_runlevels tk) \<and>
             st_start tk = Some a \<and>
             a (delay 20 (worldAfter templates n pre' w)) = (Inr r, wk) \<and>
             \<not> (st_type tk = ''daemon'' \<and> r = JNull) \<longrightarrow>
               lookup (services this') k
                 = Some \<lparr>si_name = st_name tk, si_description = st_description tk,
                         si_type = st_type tk, si_runlevels = st_runlevels tk,
                         si_startedAt = clock (worldAfter templates n pre' w) + 20,
                         si_runlevel = n,
                         si_process = Some r, si_status = Some ''running''\<rparr> \<and>
               (st_type tk = ''daemon'' \<longrightarrow>
                  \<lparr>dm_name = k, dm_pid = prop_of r ''pid'',
                   dm_since = clock (worldAfter templates n pre' w) + 20\<rparr>
                    \<in> set (daemons this')) \<and>
               (k \<notin> set pre' \<longrightarrow>
                  filter (\<lambda>p. fst p = k) out' = filter (\<lambda>p. fst p = k) out)"
    unfolding this' out'
    by (intro allI impI, elim conjE) (rule startEach_turn_started)
  have own: "\<forall>pre' k post'.
             names = pre' @ k # post' \<and> k \<notin> set pre' \<and> k \<notin> set post' \<longrightarrow>
               filter (\<lambda>p. fst p = k) out'
                 = filter (\<lambda>p. fst p = k) out @
                   (case startError templates n k (delay 20 (worldAfter templates n pre' w)) of
                      None \<Rightarrow> [] | Some e \<Rightarrow> [(k, e)])"
    unfolding out'
    by (intro allI impI, elim conjE) (rule startEach_turn_log)
  from res iso world log keep others own show ?thesis by blast
qed

text \<open>The example of the claim: runlevel 3 with \<open>svc-a\<close> (runlevel 3) and \<open>svc-b\<close>
  (runlevel 5). \<open>svc-a\<close> is started at clock 1020, with its process and its daemon
  entry; \<open>svc-b\<close> has its error printed, and that is all that is printed.\<close>

theorem C8_runlevel_mismatch_witness:
  "serviceTable exampleInit = Some [(3, [''svc-a'', ''svc-b''])] \<and>
   list_all plainKey [''svc-a'', ''svc-b''] \<and>
   fst (enterRunlevelWith exampleTemplates 3 exampleInit plainWorld []) = None \<and>
   snd (snd (snd (enterRunlevelWith exampleTemplates 3 exampleInit plainWorld [])))
     = [(''svc-b'', ServiceNotAvailable ''svc-b'' 3)] \<and>
   services (fst (snd (enterRunlevelWith exampleTemplates 3 exampleInit plainWorld [])))
     = [(''svc-a'',
         \<lparr>si_name = ''svc-a'', si_description = ''Service A'', si_type = ''daemon'',
          si_runlevels = [3], si_startedAt = 1020, si_runlevel = 3,
          si_process = Some (JObj [(''pid'', JNum 2001), (''status'', JStr ''running'')]),
          si_status = Some ''running''\<rparr>)] \<and>
   daemons (fst (snd (enterRunlevelWith exampleTemplates 3 exampleInit plainWorld [])))
     = [\<lparr>dm_name = ''svc-a'', dm_pid = Some (JNum 2001), dm_since = 1020\<rparr>] \<and>
   clock (fst (snd (snd (enterRunlevelWith exampleTemplates 3 exampleInit plainWorld []))))
     = 1070"
proof -
  let ?run = "enterRunlevelWith exampleTemplates 3 exampleInit plainWorld []"
  let ?pre = "startEach exampleTemplates [''svc-a''] 3 exampleInit plainWorld []"
  let ?tb = "\<lparr>st_name = ''svc-b'', st_description = ''Service B'', st_type = ''daemon'',
         st_runlevels = [5],
         st_start = Some (\<lambda>w::unit world.
            (Inr (JObj [(''pid'', JNum 2002), (''status'', JStr ''running'')]) :: error + jsval,
             delay 30 w))\<rparr>"
  have a1: "serviceTable exampleInit = Some [(3, [''svc-a'', ''svc-b''])]"
    by (simp add: exampleInit_def newStage3Init_def)
  have a2: "map_of [(3::nat, [''svc-a'', ''svc-b''])] 3 = Some [''svc-a'', ''svc-b'']"
    by simp
  have a3: "list_all plainKey [''svc-a'', ''svc-b'']"
    by (simp add: plain_eval)
  have a4: "[''svc-a'', ''svc-b''] = [''svc-a''] @ ''svc-b'' # []"
    by simp
  have a5: "lookup exampleTemplates ''svc-b'' = Some ?tb"
    by (simp add: exampleTemplates_def)
  have a6: "3 \<notin> set (st_runlevels ?tb)"
    by simp
  have a7: "?run = (fst ?run, fst (snd ?run), fst (snd (snd ?run)), snd (snd (snd ?run)))"
    by simp
  have a8: "?pre = (fst ?pre, fst (snd ?pre), snd (snd ?pre))"
    by simp
  note t = C8_runlevel_mismatch_isolated[OF a1 a2 a3 a4 a5 a6 a7 a8]
  from t have r: "fst ?run = None"
    by blast
  have ev: "snd (snd (snd ?run)) = [(''svc-b'', ServiceNotAvailable ''svc-b'' 3)] \<and>
     services (fst (snd ?run))
     = [(''svc-a'',
         \<lparr>si_name = ''svc-a'', si_description = ''Service A'', si_type = ''daemon'',
          si_runlevels = [3], si_startedAt = 1020, si_runlevel = 3,
          si_process = Some (JObj [(''pid'', JNum 2001), (''status'', JStr ''running'')]),
          si_status = Some ''running''\<rparr>)] \<and>
     daemons (fst (snd ?run))
     = [\<lparr>dm_name = ''svc-a'', dm_pid = Some (JNum 2001), dm_since = 1020\<rparr>] \<and>
     clock (fst (snd (snd ?run))) = 1070"
    by (simp add: init_eval)
  from a1 a3 r ev show ?thesis by simp
qed

text \<open>
  Claim C10. A call of \<open>startService\<close> that fails, for whichever reason (no template,
  runlevel not listed, a \<open>start\<close> that throws, a \<open>null\<close> result of a daemon's
  \<open>start\<close>), returns the init object as it was: nothing is pushed to \<open>this.daemons\<close>
  before the template's \<open>start\<close> has returned a result, and a call that returns a
  service has met none of these errors. \<open>enterRunlevel\<close> stores a service only when
  \<open>startService\<close> has returned it. So, within \<open>enterRunlevel\<close> over plain names, a name
  \<open>s\<close> requested once whose start fails at its turn has the same entry of
  \<open>this.services\<close> and the same entries of \<open>this.daemons\<close> afterwards as before, and
  its error is printed once under its name.
\<close>

theorem C10_failed_start_leaves_tables:
  assumes tbl: "serviceTable this = Some table" and nm: "map_of table n = Some names"
      and plain: "list_all plainKey names"
      and names: "names = pre @ s # post" and once: "s \<notin> set pre" "s \<notin> set post"
      and err: "startError templates n s (delay 20 (worldAfter templates n pre w)) = Some e"
      and run: "enterRunlevelWith templates n this w out = (res, this', w', out')"
  shows "(\<forall>this0 w0 e0. startError templates n s w0 = Some e0 \<longrightarrow>
            startServiceWith templates s n this0 w0
              = (Inl e0, this0, serviceWorld templates n s w0)) \<and>
         (\<forall>this0 w0 e0 this1 w1.
            startServiceWith templates s n this0 w0 = (Inl e0, this1, w1) \<longrightarrow> this1 = this0) \<and>
         (\<forall>this0 w0 si this1 w1.
            startServiceWith templates s n this0 w0 = (Inr si, this1, w1) \<longrightarrow>
              startError templates n s w0 = None) \<and>
         res = None \<and>
         lookup (services this') s = lookup (services this) s \<and>
         filter (\<lambda>d. dm_name d = s) (daemons this') = filter (\<lambda>d. dm_name d = s) (daemons this) \<and>
         filter (\<lambda>p. fst p = s) out' = filter (\<lambda>p. fst p = s) out @ [(s, e)]"
proof -
  let ?loop = "startEach templates names n this w out"
  obtain this1 w1 out1 where pre: "startEach templates pre n this w out = (this1, w1, out1)"
    by (cases "startEach templates pre n this w out") auto
  have w1: "w1 = worldAfter templates n pre w"
    using startEach_world[of templates pre n this w out] pre by simp
  have ne: "names \<noteq> []" using names by simp
  have "(res, this', w', out') = (None, ?loop)"
    using enterRunlevel_loop[OF tbl nm ne, of templates w out] run by simp
  then have res: "res = None" and this': "this' = fst ?loop" and out': "out' = snd (snd ?loop)"
    by (simp_all add: prod_eq_iff)
  have err1: "startError templates n s (delay 20 w1) = Some e"
    using err w1 by simp
  note turn = startEach_turn_failed[OF names pre err1]
  have keep: "lookup (services this') s = lookup (services this) s \<and>
         filter (\<lambda>d. dm_name d = s) (daemons this') = filter (\<lambda>d. dm_name d = s) (daemons this)"
    unfolding this' using turn once by blast
  from turn obtain extPre extPost where
    ext: "snd (snd ?loop) = out @ extPre @ [(s, e)] @ extPost"
         "fst ` set extPre \<subseteq> set pre" "fst ` set extPost \<subseteq> set post"
    by blast
  have "filter (\<lambda>p. fst p = s) extPre = []"
    using ext(2) once(1) by (rule filter_name_outside)
  moreover have "filter (\<lambda>p. fst p = s) extPost = []"
    using ext(3) once(2) by (rule filter_name_outside)
  ultimately have log: "filter (\<lambda>p. fst p = s) out' = filter (\<lambda>p. fst p = s) out @ [(s, e)]"
    unfolding out' ext(1) by simp
  have c1: "\<forall>this0 w0 e0. startError templates n s w0 = Some e0 \<longrightarrow>
            startServiceWith templates s n this0 w0
              = (Inl e0, this0, serviceWorld templates n s w0)"
    by (blast intro: startService_error)
  have c2: "\<forall>this0 w0 e0 this1 w1.
            startServiceWith templates s n this0 w0 = (Inl e0, this1, w1) \<longrightarrow> this1 = this0"
    by (blast dest: startService_failure)
  have c3: "\<forall>this0 w0 si this1 w1.
            startServiceWith templates s n this0 w0 = (Inr si, this1, w1) \<longrightarrow>
              startError templates n s w0 = None"
    by (blast intro: startService_no_error)
  from c1 c2 c3 res keep log show ?thesis by blast
qed

text \<open>
  Runlevel 3 with \<open>svc-c\<close> (its \<open>start\<close> throws), \<open>svc-b\<close> (runlevel 5), \<open>ssh\<close> (no
  template), \<open>svc-n\<close> (a daemon whose \<open>start\<close> returns \<open>null\<close>) and \<open>svc-a\<close>. The
  start of \<open>svc-n\<close> fails at its turn with the \<open>TypeError\<close>; the four failures leave no
  entry, each has its error printed under its name, and the one service and the one
  daemon entry are those of \<open>svc-a\<close>.
\<close>

theorem C10_failed_start_witness:
  "serviceTable failingInit = Some [(3, [''svc-c'', ''svc-b'', ''ssh'', ''svc-n'', ''svc-a''])] \<and>
   list_all plainKey [''svc-c'', ''svc-b'', ''ssh'', ''svc-n'', ''svc-a''] \<and>
   startError exampleTemplates 3 ''svc-n''
       (delay 20 (worldAfter exampleTemplates 3 [''svc-c'', ''svc-b'', ''ssh''] plainWorld))
     = Some (TypeError ''pid'') \<and>
   startServiceWith exampleTemplates ''svc-n'' 3 failingInit plainWorld
     = (Inl (TypeError ''pid''), failingInit, plainWorld\<lparr>clock := 1015\<rparr>) \<and>
   fst (enterRunlevelWith exampleTemplates 3 failingInit plainWorld []) = None \<and>
   lookup (services (fst (snd (enterRunlevelWith exampleTemplates 3 failingInit plainWorld []))))
     ''svc-n'' = None \<and>
   filter (\<lambda>d. dm_name d = ''svc-n'')
     (daemons (fst (snd (enterRunlevelWith exampleTemplates 3 failingInit plainWorld [])))) = [] \<and>
   snd (snd (snd (enterRunlevelWith exampleTemplates 3 failingInit plainWorld [])))
     = [(''svc-c'', Thrown ''no device''), (''svc-b'', ServiceNotAvailable ''svc-b'' 3),
        (''ssh'', ServiceNotFound ''ssh''), (''svc-n'', TypeError ''pid'')] \<and>
   map dm_name (daemons (fst (snd (enterRunlevelWith exampleTemplates 3 failingInit plainWorld []))))
     = [''svc-a''] \<and>
   keys (services (fst (snd (enterRunlevelWith exampleTemplates 3 failingInit plainWorld []))))
     = [''svc-a'']"
proof -
  let ?run = "enterRunlevelWith exampleTemplates 3 failingInit plainWorld []"
  have a1: "serviceTable failingInit
              = Some [(3, [''svc-c'', ''svc-b'', ''ssh'', ''svc-n'', ''svc-a''])]"
    by (simp add: failingInit_def newStage3Init_def)
  have a2: "map_of [(3::nat, [''svc-c'', ''svc-b'', ''ssh'', ''svc-n'', ''svc-a''])] 3
              = Some [''svc-c'', ''svc-b'', ''ssh'', ''svc-n'', ''svc-a'']"
    by simp
  have a3: "list_all plainKey [''svc-c'', ''svc-b'', ''ssh'', ''svc-n'', ''svc-a'']"
    by (simp add: plain_eval)
  have a4: "[''svc-c'', ''svc-b'', ''ssh'', ''svc-n'', ''svc-a'']
              = [''svc-c'', ''svc-b'', ''ssh''] @ ''svc-n'' # [''svc-a'']"
    by simp
  have a5: "''svc-n'' \<notin> set [''svc-c'', ''svc-b'', ''ssh'']"
    by simp
  have a6: "''svc-n'' \<notin> set [''svc-a'']"
    by simp
  have a7: "startError exampleTemplates 3 ''svc-n''
       (delay 20 (worldAfter exampleTemplates 3 [''svc-c'', ''svc-b'', ''ssh''] plainWorld))
     = Some (TypeError ''pid'')"
    by (simp add: init_eval)
  have a8: "?run = (fst ?run, fst (snd ?run), fst (snd (snd ?run)), snd (snd (snd ?run)))"
    by simp
  note t = C10_failed_start_leaves_tables[OF a1 a2 a3 a4 a5 a6 a7 a8]
  from t have r: "fst ?run = None"
    by blast
  from t have k: "lookup (services (fst (snd ?run))) ''svc-n''
                    = lookup (services failingInit) ''svc-n'' \<and>
                  filter (\<lambda>d. dm_name d = ''svc-n'') (daemons (fst (snd ?run)))
                    = filter (\<lambda>d. dm_name d = ''svc-n'') (daemons failingInit)"
    by blast
  have i: "lookup (services failingInit) ''svc-n'' = None \<and> daemons failingInit = []"
    by (simp add: failingInit_def newStage3Init_def)
  have st: "startServiceWith exampleTemplates ''svc-n'' 3 failingInit plainWorld
     = (Inl (TypeError ''pid''), failingInit, plainWorld\<lparr>clock := 1015\<rparr>)"
    by (simp add: init_eval)
  have ev: "snd (snd (snd ?run))
     = [(''svc-c'', Thrown ''no device''), (''svc-b'', ServiceNotAvailable ''svc-b'' 3),
        (''ssh'', ServiceNotFound ''ssh''), (''svc-n'', TypeError ''pid'')] \<and>
     map dm_name (daemons (fst (snd ?run))) = [''svc-a''] \<and>
     keys (services (fst (snd ?run))) = [''svc-a'']"
    by (simp add: init_eval)
  from a1 a3 a7 st r k i ev show ?thesis by simp
qed

section \<open>Properties of the integrity verification\<close>

text \<open>
  Claim C6, as amended. The reports carry the clock, read after the method's own delay:
  \<open>timestamp: Date.now()\<close>, and, in \<open>checkSystemStatus\<close>, \<open>uptime: Date.now() -
  this.startTime\<close>. Calling \<open>verifyKernelIntegrity\<close> twice with unchanged state leaves
  the state as it was, and the second report equals the first in every field but
  \<open>timestamp\<close> (same \<open>healthy\<close> flag, same \<open>checks\<close>, \<open>issues\<close> and \<open>warnings\<close>
  sequences, same counts); the second \<open>timestamp\<close> is later by the delay of the call,
  70 ms. Calling \<open>checkSystemStatus\<close> twice with unchanged state leaves the state as it
  was, and the second report equals the first in every field but \<open>timestamp\<close> and
  \<open>uptime\<close>, both later by the delay of the call, 75 ms; \<open>uptime\<close> is \<open>NaN\<close> in both
  reports when \<open>this.startTime\<close> is unset.
\<close>

theorem C6_reports_equal_but_timestamp:
  "fst (snd (verifyKernelIntegrity this w)) = this \<and>
   fst (verifyKernelIntegrity this (snd (snd (verifyKernelIntegrity this w))))
     = (fst (verifyKernelIntegrity this w))
          \<lparr>ir_timestamp := ir_timestamp (fst (verifyKernelIntegrity this w)) + 70\<rparr> \<and>
   ir_timestamp (fst (verifyKernelIntegrity this w)) = clock w + 70 \<and>
   fst (snd (checkSystemStatus init w)) = init \<and>
   fst (checkSystemStatus init (snd (snd (checkSystemStatus init w))))
     = (fst (checkSystemStatus init w))
          \<lparr>ss_uptime := map_option (\<lambda>u. u + 75) (ss_uptime (fst (checkSystemStatus init w))),
           ss_timestamp := ss_timestamp (fst (checkSystemStatus init w)) + 75\<rparr> \<and>
   ss_timestamp (fst (checkSystemStatus init w)) = clock w + 75 \<and>
   ss_uptime (fst (checkSystemStatus init w))
     = map_option (\<lambda>t. int (clock w + 75) - int t) (initStartTime init)"
  by (cases "initStartTime init")
     (simp_all add: verifyKernelIntegrity_def checkSystemStatus_def checkSystemResources_def
        delay_def Let_def split_beta)

text \<open>
  The claim as stated fails on a newly constructed initializer with the clock at 1000:
  the state is unchanged by the first call, the first report has \<open>timestamp\<close> 1070 and
  the second 1140, so the two reports are not identical. Likewise for
  \<open>checkSystemStatus\<close> on an init object whose \<open>startTime\<close> is 500: the first report
  has \<open>uptime\<close> 575 and the second 650.
\<close>

theorem C6_reports_counterexample:
  "fst (snd (verifyKernelIntegrity newKernelInitializer plainWorld)) = newKernelInitializer \<and>
   ir_timestamp (fst (verifyKernelIntegrity newKernelInitializer plainWorld)) = 1070 \<and>
   ir_timestamp (fst (verifyKernelIntegrity
       (fst (snd (verifyKernelIntegrity newKernelInitializer plainWorld)))
       (snd (snd (verifyKernelIntegrity newKernelInitializer plainWorld))))) = 1140 \<and>
   fst (verifyKernelIntegrity newKernelInitializer plainWorld)
     \<noteq> fst (verifyKernelIntegrity
       (fst (snd (verifyKernelIntegrity newKernelInitializer plainWorld)))
       (snd (snd (verifyKernelIntegrity newKernelInitializer plainWorld)))) \<and>
   ss_uptime (fst (checkSystemStatus (newStage3Init\<lparr>initStartTime := Some 500\<rparr>) plainWorld))
     = Some 575 \<and>
   ss_uptime (fst (checkSystemStatus (newStage3Init\<lparr>initStartTime := Some 500\<rparr>)
       (snd (snd (checkSystemStatus (newStage3Init\<lparr>initStartTime := Some 500\<rparr>) plainWorld)))))
     = Some 650"
proof -
  let ?first = "verifyKernelIntegrity newKernelInitializer plainWorld"
  let ?second = "verifyKernelIntegrity (fst (snd ?first)) (snd (snd ?first))"
  have a: "ir_timestamp (fst ?first) = 1070"
    by (simp add: verifyKernelIntegrity_def delay_def plainWorld_def Let_def split_beta)
  have s: "fst (snd ?first) = newKernelInitializer"
    by (simp add: verifyKernelIntegrity_def Let_def split_beta)
  have b: "ir_timestamp (fst ?second) = 1140"
    by (simp add: verifyKernelIntegrity_def delay_def plainWorld_def Let_def split_beta)
  have "fst ?first \<noteq> fst ?second"
  proof
    assume "fst ?first = fst ?second"
    then have "ir_timestamp (fst ?first) = ir_timestamp (fst ?second)" by simp
    with a b show False by simp
  qed
  moreover have "ss_uptime (fst (checkSystemStatus (newStage3Init\<lparr>initStartTime := Some 500\<rparr>)
                     plainWorld)) = Some 575"
    by (simp add: checkSystemStatus_def checkSystemResources_def newStage3Init_def delay_def
          plainWorld_def Let_def split_beta)
  moreover have "ss_uptime (fst (checkSystemStatus (newStage3Init\<lparr>initStartTime := Some 500\<rparr>)
       (snd (snd (checkSystemStatus (newStage3Init\<lparr>initStartTime := Some 500\<rparr>) plainWorld)))))
     = Some 650"
    by (simp add: checkSystemStatus_def checkSystemResources_def newStage3Init_def delay_def
          plainWorld_def Let_def split_beta)
  ultimately show ?thesis using a b s by simp
qed

end
